theory Spec2Isabelle
  imports Complex_Main "HOL-Library.AList"
begin

section \<open>DankTimesBot: the per-chat game state of \<^verbatim>\<open>src/chat/chat.ts\<close>\<close>

text \<open>
  The class \<^verbatim>\<open>Chat\<close> is embedded as a record that is passed in and returned; a method
  that can throw returns the exception (or its value) together with the chat as it is
  when the method is left. Numbers that the code only ever uses as whole numbers (user
  ids, scores, points, hours, minutes, unix seconds) are \<open>int\<close>. The multiplier, the
  values of \<^verbatim>\<open>Math.random()\<close> and what the code multiplies them with are doubles: a finite
  double is a rational, and every product the code forms with \<^verbatim>\<open>*\<close> is rounded to the
  nearest double. Strings are lists of bytes, the UTF-8 encoding of the text.
\<close>

subsection \<open>JavaScript numbers\<close>

datatype number = Finite rat | NaN | PosInfinity | NegInfinity

text \<open>\<^verbatim>\<open>x % 1\<close>: the remainder has the sign of the dividend; it is NaN for a dividend that
  is not finite. The two zeros of JavaScript are one value here, as they are for \<^verbatim>\<open>===\<close>.\<close>

definition trunc :: "rat \<Rightarrow> int" where
  "trunc q = (if 0 \<le> q then \<lfloor>q\<rfloor> else \<lceil>q\<rceil>)"

fun rem1 :: "number \<Rightarrow> number" where
  "rem1 (Finite q) = Finite (q - of_int (trunc q))"
| "rem1 NaN = NaN"
| "rem1 PosInfinity = NaN"
| "rem1 NegInfinity = NaN"

text \<open>\<^verbatim>\<open>a !== b\<close> on numbers: NaN differs from everything, itself included.\<close>

definition strictNotEqual :: "number \<Rightarrow> number \<Rightarrow> bool" where
  "strictNotEqual a b = (a = NaN \<or> b = NaN \<or> a \<noteq> b)"

text \<open>
  Doubles. A finite double is a rational number. The binary exponent of a positive
  rational \<open>x\<close> is the whole number \<open>e\<close> with \<^verbatim>\<open>2^e <= x < 2^(e+1)\<close>; it is found by
  halving or doubling \<open>x\<close> until it lies between 1 and 2. The doubles with that
  exponent are the multiples of \<^verbatim>\<open>2^(e-52)\<close>, and of \<^verbatim>\<open>2^(-1074)\<close> for the subnormal
  ones. \<open>toDouble\<close> is the rounding of IEEE 754 arithmetic and of reading a decimal
  numeral: to the nearest double, a tie going to the even multiple. A product in
  JavaScript is the exact product rounded this way. Results beyond the largest double,
  about \<^verbatim>\<open>1.8e308\<close>, where JavaScript has \<^verbatim>\<open>Infinity\<close>, are not modelled.
\<close>

function halvings :: "rat \<Rightarrow> nat" where
  "halvings x = (if 2 \<le> x then Suc (halvings (x / 2)) else 0)"
  by pat_completeness auto
termination
proof (relation "measure (\<lambda>x. nat \<lfloor>x\<rfloor>)")
  show "wf (measure (\<lambda>x::rat. nat \<lfloor>x\<rfloor>))" by simp
next
  fix x :: rat
  assume x: "2 \<le> x"
  have "x / 2 < of_int \<lfloor>x\<rfloor>"
  proof -
    have "x < of_int \<lfloor>x\<rfloor> + 1" by linarith
    moreover have "(2::rat) \<le> of_int \<lfloor>x\<rfloor>"
    proof -
      have "2 \<le> \<lfloor>x\<rfloor>" using x by (simp add: le_floor_iff)
      then show ?thesis by (metis of_int_le_iff of_int_numeral)
    qed
    ultimately show ?thesis by linarith
  qed
  then have "\<lfloor>x / 2\<rfloor> < \<lfloor>x\<rfloor>" by (simp add: floor_less_iff)
  moreover have "0 < \<lfloor>x\<rfloor>" using x by (simp add: less_floor_iff)
  ultimately show "(x / 2, x) \<in> measure (\<lambda>x. nat \<lfloor>x\<rfloor>)" by simp
qed

function doublings :: "rat \<Rightarrow> nat" where
  "doublings x = (if 0 < x \<and> x < 1 then Suc (doublings (2 * x)) else 0)"
  by pat_completeness auto
termination
proof (relation "measure (\<lambda>x. nat \<lceil>1 / x\<rceil>)")
  show "wf (measure (\<lambda>x::rat. nat \<lceil>1 / x\<rceil>))" by simp
next
  fix x :: rat
  assume x: "0 < x \<and> x < 1"
  then have one: "1 < 1 / x" by (simp add: less_divide_eq_1_pos)
  define y where "y = 1 / x"
  have a: "y \<le> of_int \<lceil>y\<rceil>" by (rule le_of_int_ceiling)
  have c2: "2 \<le> \<lceil>y\<rceil>" using one by (simp add: less_ceiling_iff y_def)
  then have b: "(2::rat) \<le> of_int \<lceil>y\<rceil>" by (metis of_int_le_iff of_int_numeral)
  have "1 / (2 * x) = y / 2" by (simp add: y_def)
  also have "\<dots> \<le> of_int \<lceil>y\<rceil> - 1" using a b by linarith
  also have "\<dots> = of_int (\<lceil>y\<rceil> - 1)" by simp
  finally have "\<lceil>1 / (2 * x)\<rceil> \<le> \<lceil>1 / x\<rceil> - 1" by (simp only: ceiling_le_iff y_def)
  moreover have "0 < \<lceil>1 / x\<rceil>" using c2 unfolding y_def by linarith
  ultimately show "(2 * x, x) \<in> measure (\<lambda>x. nat \<lceil>1 / x\<rceil>)" by simp
qed

declare halvings.simps [simp del] doublings.simps [simp del]

definition exponent :: "rat \<Rightarrow> int" where
  "exponent x = (if 1 \<le> x then int (halvings x) else - int (doublings x))"

definition roundHalfEven :: "rat \<Rightarrow> int" where
  "roundHalfEven q =
     (let f = \<lfloor>q\<rfloor>; r = q - of_int f
      in if r < 1 / 2 then f else if 1 / 2 < r then f + 1 else if even f then f else f + 1)"

text \<open>The distance between neighbouring doubles at \<open>x\<close>.\<close>

definition ulp :: "rat \<Rightarrow> rat" where
  "ulp x = power_int 2 (max (exponent \<bar>x\<bar> - 52) (- 1074))"

definition toDouble :: "rat \<Rightarrow> rat" where
  "toDouble x = of_int (roundHalfEven (x / ulp x)) * ulp x"

text \<open>\<^verbatim>\<open>a * b\<close> on doubles.\<close>

definition timesDouble :: "rat \<Rightarrow> rat \<Rightarrow> rat" where
  "timesDouble a b = toDouble (a * b)"

text \<open>\<^verbatim>\<open>Math.round\<close>: the nearest integer, a tie going up.\<close>

definition Math_round :: "rat \<Rightarrow> int" where
  "Math_round x = \<lfloor>x + 1 / 2\<rfloor>"

datatype error = RangeError | TypeError

subsection \<open>The clock\<close>

text \<open>
  Modelled from the spec: the timezone-aware clock (the moment library) is a collaborator;
  section 6 of the specification has it return the current local hour, minute and unix
  seconds. A moment is an instant in unix seconds together with its time zone, and a time
  zone gives the UTC offset, in seconds, that is in force at each instant, so the offset
  may change with daylight saving time. Hour and minute are read off the local time under
  the offset in force at the instant, so they are in range by construction.
  The two operations the chat uses are modelled after the behaviour of the libraries
  moment and moment-timezone: \<^verbatim>\<open>add(k, "hours")\<close> moves the instant by \<open>k\<close> hours;
  \<^verbatim>\<open>minutes(m)\<close> sets the minute on the wall clock as it stands, which moves the instant
  by the difference of the minutes. After either, the local time is read under the
  offset in force at the new instant.
\<close>

record moment =
  unix :: int
  zone :: "int \<Rightarrow> int"

definition localSeconds :: "moment \<Rightarrow> int" where
  "localSeconds m = unix m + zone m (unix m)"

definition hours :: "moment \<Rightarrow> int" where
  "hours m = (localSeconds m div 3600) mod 24"

definition minutes :: "moment \<Rightarrow> int" where
  "minutes m = (localSeconds m div 60) mod 60"

definition add_hours :: "int \<Rightarrow> moment \<Rightarrow> moment" where
  "add_hours k m = m\<lparr>unix := unix m + 3600 * k\<rparr>"

definition set_minutes :: "int \<Rightarrow> moment \<Rightarrow> moment" where
  "set_minutes k m = m\<lparr>unix := unix m + 60 * (k - minutes m)\<rparr>"

subsection \<open>Time slots and users\<close>

text \<open>
  Modelled from the spec: the class \<^verbatim>\<open>DankTime\<close> is not among the sources. Section 3 of
  the specification gives a time slot an hour, a minute, alias texts and a point value,
  an integer that may be negative at run time.
\<close>

record dankTime =
  hour :: int
  minute :: int
  texts :: "string list"
  points :: int

text \<open>
  Modelled from the spec: \<^verbatim>\<open>DankTime.hasText\<close> is not among the sources; section 4.1 has
  it match the candidate exactly against any alias.
\<close>

definition hasText :: "dankTime \<Rightarrow> string \<Rightarrow> bool" where
  "hasText d text \<longleftrightarrow> text \<in> set (texts d)"

text \<open>
  Modelled from the spec: the class \<^verbatim>\<open>User\<close> is not among the sources. Section 3 gives
  a user an id, a name, an integer score, the score change since the last leaderboard,
  the unix time of the last score change and the flag \<^verbatim>\<open>called\<close>.
\<close>

record user =
  id_user :: int
  name :: string
  score :: int
  lastScoreChange :: int
  lastScoreTimestamp :: int
  called :: bool

text \<open>
  Modelled from the spec: the constructor of \<^verbatim>\<open>User\<close> is not among the sources; the
  chat creates a user from an id and a name, who starts with score 0, no score change,
  timestamp 0 and \<^verbatim>\<open>called = false\<close>.
\<close>

definition new_User :: "int \<Rightarrow> string \<Rightarrow> user" where
  "new_User i n = \<lparr>id_user = i, name = n, score = 0, lastScoreChange = 0,
     lastScoreTimestamp = 0, called = False\<rparr>"

text \<open>
  Modelled from the spec: \<^verbatim>\<open>User.addToScore\<close> is not among the sources; section 4.2 has
  it add the delta to the score and to \<^verbatim>\<open>lastScoreChange\<close> and store the timestamp.
\<close>

definition addToScore :: "int \<Rightarrow> int \<Rightarrow> user \<Rightarrow> user" where
  "addToScore delta timestamp u =
     u\<lparr>score := score u + delta, lastScoreChange := lastScoreChange u + delta,
       lastScoreTimestamp := timestamp\<rparr>"

text \<open>
  Modelled from the spec: \<^verbatim>\<open>User.resetScore\<close> is not among the sources; section 4.2 has
  it set the score to 0.
\<close>

definition resetScore :: "user \<Rightarrow> user" where
  "resetScore u = u\<lparr>score := 0\<rparr>"

text \<open>
  Modelled from the spec: \<^verbatim>\<open>User.resetLastScoreChange\<close> is not among the sources;
  section 4.2 has it zero the difference counter.
\<close>

definition resetLastScoreChange :: "user \<Rightarrow> user" where
  "resetLastScoreChange u = u\<lparr>lastScoreChange := 0\<rparr>"

text \<open>
  Modelled from the spec: \<^verbatim>\<open>User.compare\<close> is not among the sources; section 4.2 ranks
  users by score, highest first, ties in the order of iteration. This is
  \<^verbatim>\<open>usersArr.sort(User.compare)\<close>, a stable sort.
\<close>

definition sortByScore :: "user list \<Rightarrow> user list" where
  "sortByScore us = sort_key (\<lambda>u. - score u) us"

subsection \<open>Collaborators of the chat\<close>

text \<open>
  Modelled from the spec: the plugin host and its event arguments are not among the
  sources. Section 6 has \<^verbatim>\<open>trigger\<close> take an event kind with its payload and return a
  sequence of strings, its effect visible through the return value only. The host
  answers with \<open>respond\<close> and records every event it was triggered with in \<open>fired\<close>, so
  that a statement about an extension point being triggered can be made. The payload of
  the score-change event is the user's record at that moment and the delta; the payload
  of the reset event is the chat itself and is left out.
\<close>

datatype pluginEvent =
    PostInit string
  | PreMesssage string
  | PostMessage string
  | UserScoreChange user int
  | LeaderboardReset

record pluginHost =
  respond :: "pluginEvent \<Rightarrow> string list"
  fired :: "pluginEvent list"

text \<open>
  Modelled from the spec: the text utility is not among the sources; section 6 has
  \<^verbatim>\<open>cleanText\<close> be a pure function on texts, taken as a parameter here.
\<close>

record util =
  cleanText :: "string \<Rightarrow> string"

text \<open>
  Modelled from the spec: the class \<^verbatim>\<open>Leaderboard\<close> is not among the sources; section
  4.3 has it hold a snapshot of the users. What its \<^verbatim>\<open>toString\<close> prints is a parameter
  of the functions that render a leaderboard.
\<close>

type_synonym leaderboard = "user list"

text \<open>
  Modelled from the spec: the class \<^verbatim>\<open>ChatSetting\<close> and the names of the core settings
  are not among the sources; section 4.4 gives the chat typed getters for its settings.
  The settings map of the chat has one entry per registered setting, a \<^verbatim>\<open>ChatSetting\<close>
  object with a value. For the timezone, the multiplier, the number of random times and
  the points per random time the record holds what \<^verbatim>\<open>String(...)\<close> and \<^verbatim>\<open>Number(...)\<close>
  make of the entry, which depends on methods of \<^verbatim>\<open>ChatSetting\<close>: the value of the
  setting, the multiplier a finite number. For the three truth-valued settings the record
  holds the entry itself: \<open>None\<close> when the setting is not registered and \<open>Some v\<close> when
  it is registered with the value \<open>v\<close>.
\<close>

record settings =
  timezone_setting :: string
  multiplier_setting :: rat
  numberOfRandomTimes_setting :: nat
  pointsPerRandomTime_setting :: int
  hardcoreMode_setting :: "bool option"
  handicaps_setting :: "bool option"
  firstNotifications_setting :: "bool option"

text \<open>The decimal digits of a number, as JavaScript prints a whole number; \<open>digit\<close> is
  only applied to numbers below 10.\<close>

definition digit :: "nat \<Rightarrow> char" where
  "digit n = ''0123456789'' ! n"

fun decimal :: "nat \<Rightarrow> string" where
  "decimal n = (if n < 10 then [digit n] else decimal (n div 10) @ [digit (n mod 10)])"

declare decimal.simps [simp del]

definition toString :: "int \<Rightarrow> string" where
  "toString i = (if i < 0 then CHR ''-'' # decimal (nat (- i)) else decimal (nat i))"

text \<open>
  Modelled from the spec: \<^verbatim>\<open>util.padNumber\<close> is not among the sources; section 6 has it
  zero-pad 0 to 9 and leave numbers from 10 on as they are.
\<close>

definition padNumber :: "int \<Rightarrow> string" where
  "padNumber n = (if n < 10 then CHR ''0'' # toString n else toString n)"

text \<open>
  \<^verbatim>\<open>toUpperCase\<close> on the UTF-8 bytes of a string: the letters a to z become A to Z, and
  the long s, U+017F with the bytes C5 BF, becomes S. The model leaves every other
  character as it is. JavaScript converts further characters outside ASCII, but the
  upper case of none of them is Y, E, S, YE or ES (that of the sharp s is SS), so the
  texts whose upper case is "YES" are the same in the model and in JavaScript. The chat
  uses \<^verbatim>\<open>toUpperCase\<close> for this comparison only.
\<close>

definition upperChar :: "char \<Rightarrow> char" where
  "upperChar ch =
     (case map_of (zip ''abcdefghijklmnopqrstuvwxyz'' ''ABCDEFGHIJKLMNOPQRSTUVWXYZ'') ch of
        None \<Rightarrow> ch
      | Some upper \<Rightarrow> upper)"

fun toUpperCase :: "string \<Rightarrow> string" where
  "toUpperCase [] = []"
| "toUpperCase [a] = [upperChar a]"
| "toUpperCase (a # b # s) =
     (if a = CHR 0xC5 \<and> b = CHR 0xBF then CHR ''S'' # toUpperCase s
      else upperChar a # toUpperCase (b # s))"

subsection \<open>The chat\<close>

record chat =
  awaitingResetConfirmation :: int
  myId :: number
  myLastHour :: int
  myLastMinute :: int
  myLastLeaderboard :: "leaderboard option"
  pluginHost :: pluginHost
  utilOf :: util
  running :: bool
  users :: "(int \<times> user) list"
  dankTimes :: "dankTime list"
  randomDankTimes :: "dankTime list"
  settings :: settings


definition handicapMultiplier :: rat where
  "handicapMultiplier = 3 / 2"

definition bottomPartThatHasHandicap :: rat where
  "bottomPartThatHasHandicap = 1 / 4"

text \<open>The literal \<^verbatim>\<open>0.1\<close> is the double nearest to one tenth; 1.5 and 0.25 are doubles.\<close>

definition punishByFraction :: rat where
  "punishByFraction = toDouble (1 / 10)"

definition punishByPoints :: int where
  "punishByPoints = 10"

text \<open>The setters return the exception, if one is thrown, and the chat as it is then.
  On whole-number arguments the test \<^verbatim>\<open>% 1 !== 0\<close> of the hour and minute setters is
  never true.\<close>

definition set_id :: "number \<Rightarrow> chat \<Rightarrow> error option \<times> chat" where
  "set_id i c =
     (if strictNotEqual (rem1 i) (Finite 0) then (Some RangeError, c)
      else (None, c\<lparr>myId := i\<rparr>))"

definition set_lastHour :: "int \<Rightarrow> chat \<Rightarrow> error option \<times> chat" where
  "set_lastHour lastHour c =
     (if lastHour < 0 \<or> lastHour > 23 then (Some RangeError, c)
      else (None, c\<lparr>myLastHour := lastHour\<rparr>))"

definition set_lastMinute :: "int \<Rightarrow> chat \<Rightarrow> error option \<times> chat" where
  "set_lastMinute lastMinute c =
     (if lastMinute < 0 \<or> lastMinute > 59 then (Some RangeError, c)
      else (None, c\<lparr>myLastMinute := lastMinute\<rparr>))"

definition timezone :: "chat \<Rightarrow> string" where
  "timezone c = timezone_setting (settings c)"

definition numberOfRandomTimes :: "chat \<Rightarrow> nat" where
  "numberOfRandomTimes c = numberOfRandomTimes_setting (settings c)"

text \<open>The multiplier is a double: the one nearest to the value of the setting.\<close>

definition multiplier :: "chat \<Rightarrow> rat" where
  "multiplier c = toDouble (multiplier_setting (settings c))"

definition pointsPerRandomTime :: "chat \<Rightarrow> int" where
  "pointsPerRandomTime c = pointsPerRandomTime_setting (settings c)"

text \<open>\<^verbatim>\<open>Boolean(this.settings.get(...))\<close>: false for a missing entry, which is
  \<^verbatim>\<open>undefined\<close>, and true for an entry, which is an object, whatever value it holds.\<close>

definition hardcoreMode :: "chat \<Rightarrow> bool" where
  "hardcoreMode c = (case hardcoreMode_setting (settings c) of None \<Rightarrow> False | Some v \<Rightarrow> True)"

definition handicaps :: "chat \<Rightarrow> bool" where
  "handicaps c = (case handicaps_setting (settings c) of None \<Rightarrow> False | Some v \<Rightarrow> True)"

definition firstNotifications :: "chat \<Rightarrow> bool" where
  "firstNotifications c =
     (case firstNotifications_setting (settings c) of None \<Rightarrow> False | Some v \<Rightarrow> True)"

text \<open>
  Modelled from the spec: \<^verbatim>\<open>PluginHost.trigger\<close> is not among the sources; by section 6
  it returns the strings of the listeners and changes nothing of the chat. The event is
  added to the record of the host.
\<close>

definition logEvent :: "pluginEvent \<Rightarrow> chat \<Rightarrow> chat" where
  "logEvent ev c = c\<lparr>pluginHost := (pluginHost c)\<lparr>fired := fired (pluginHost c) @ [ev]\<rparr>\<rparr>"

definition trigger :: "pluginEvent \<Rightarrow> chat \<Rightarrow> string list \<times> chat" where
  "trigger ev c = (respond (pluginHost c) ev, logEvent ev c)"

text \<open>\<^verbatim>\<open>this.users.forEach(...)\<close> with a callback that changes the user it is given.\<close>

definition forEachUser :: "(user \<Rightarrow> user) \<Rightarrow> chat \<Rightarrow> chat" where
  "forEachUser f c = c\<lparr>users := map (\<lambda>(k, u). (k, f u)) (users c)\<rparr>"

text \<open>The constructor: a chat whose setters all accept their argument, after the
  post-init event; no chat when one of them throws. Before its setter runs the id is
  undefined, written \<open>NaN\<close> here.\<close>

definition new_Chat ::
  "util \<Rightarrow> number \<Rightarrow> pluginHost \<Rightarrow> bool \<Rightarrow> int \<Rightarrow> int \<Rightarrow> (int \<times> user) list \<Rightarrow>
   dankTime list \<Rightarrow> dankTime list \<Rightarrow> settings \<Rightarrow> error + chat" where
  "new_Chat u i ph run lastHour lastMinute us dts rdts sts =
     (let c0 = \<lparr>awaitingResetConfirmation = - 1, myId = NaN, myLastHour = 0,
                myLastMinute = 0, myLastLeaderboard = None, pluginHost = ph, utilOf = u,
                running = run, users = us, dankTimes = dts, randomDankTimes = rdts,
                settings = sts\<rparr>
      in case set_id i c0 of
           (Some e, c1) \<Rightarrow> Inl e
         | (None, c1) \<Rightarrow>
             (case set_lastHour lastHour c1 of
                (Some e, c2) \<Rightarrow> Inl e
              | (None, c2) \<Rightarrow>
                  (case set_lastMinute lastMinute c2 of
                     (Some e, c3) \<Rightarrow> Inl e
                   | (None, c3) \<Rightarrow> Inr (snd (trigger (PostInit []) c3)))))"

definition sortedUsers :: "chat \<Rightarrow> user list" where
  "sortedUsers c = sortByScore (map snd (users c))"

subsection \<open>Random time slots\<close>

definition hourAndMinuteAlreadyRegistered :: "chat \<Rightarrow> int \<Rightarrow> int \<Rightarrow> bool" where
  "hourAndMinuteAlreadyRegistered c h m \<longleftrightarrow>
     list_ex (\<lambda>d. hour d = h \<and> minute d = m) (dankTimes c) \<or>
     list_ex (\<lambda>d. hour d = h \<and> minute d = m) (randomDankTimes c)"

text \<open>What one iteration of the loop reads from outside: the clock and the two values of
  \<^verbatim>\<open>Math.random()\<close>, each a double that is at least 0 and below 1, so at most
  \<^verbatim>\<open>1 - 2^(-53)\<close>.\<close>

record draw =
  nowAt :: moment
  random1 :: rat
  random2 :: rat

definition drawMoment :: "draw \<Rightarrow> moment" where
  "drawMoment dr =
     (let now0 = nowAt dr;
          now1 = add_hours \<lfloor>timesDouble (random1 dr) 23\<rfloor> now0
      in set_minutes \<lfloor>timesDouble (random2 dr) 59\<rfloor> now1)"

text \<open>By how many seconds the UTC offset in force changes when the minute is set in that
  iteration: 0 unless the time zone changes its offset just then.\<close>

definition offsetShift :: "draw \<Rightarrow> int" where
  "offsetShift dr =
     (let now1 = add_hours \<lfloor>timesDouble (random1 dr) 23\<rfloor> (nowAt dr)
      in zone now1 (unix (drawMoment dr)) - zone now1 (unix now1))"

definition randomStep :: "draw \<Rightarrow> chat \<Rightarrow> chat" where
  "randomStep dr c =
     (let now = drawMoment dr
      in if \<not> hourAndMinuteAlreadyRegistered c (hours now) (minutes now)
         then c\<lparr>randomDankTimes := randomDankTimes c @
                  [\<lparr>hour = hours now, minute = minutes now,
                    texts = [padNumber (hours now) @ padNumber (minutes now)],
                    points = pointsPerRandomTime c\<rparr>]\<rparr>
         else c)"

function randomLoop :: "(nat \<Rightarrow> draw) \<Rightarrow> nat \<Rightarrow> chat \<Rightarrow> chat" where
  "randomLoop env i c =
     (if i < numberOfRandomTimes c then randomLoop env (Suc i) (randomStep (env i) c)
      else c)"
  by pat_completeness auto
termination
  by (relation "measure (\<lambda>(env, i, c). numberOfRandomTimes c - i)")
     (auto simp: numberOfRandomTimes_def randomStep_def Let_def)

declare randomLoop.simps [simp del]

definition generateRandomDankTimes :: "(nat \<Rightarrow> draw) \<Rightarrow> chat \<Rightarrow> dankTime list \<times> chat" where
  "generateRandomDankTimes env c =
     (let c' = randomLoop env 0 (c\<lparr>randomDankTimes := []\<rparr>)
      in (randomDankTimes c', c'))"

subsection \<open>Leaderboard and hardcore mode\<close>

fun anyChanged :: "(int \<times> user) list \<Rightarrow> bool" where
  "anyChanged [] = False"
| "anyChanged (e # es) = (if lastScoreChange (snd e) \<noteq> 0 then True else anyChanged es)"

definition leaderboardChanged :: "chat \<Rightarrow> bool" where
  "leaderboardChanged c = anyChanged (users c)"

definition trophy :: string where
  "trophy = [CHR 0xF0, CHR 0x9F, CHR 0x8F, CHR 0x86]"

definition clap :: string where
  "clap = [CHR 0xF0, CHR 0x9F, CHR 0x91, CHR 0x8F]"

definition leaderboardHeader :: "bool \<Rightarrow> string" where
  "leaderboardHeader final =
     ''<b>'' @ trophy @ '' '' @ (if final then ''FINAL '' else []) @ ''LEADERBOARD</b>'' @ [CHR 0x0A]"

definition generateLeaderboard ::
  "(leaderboard \<Rightarrow> leaderboard option \<Rightarrow> string) \<Rightarrow> bool \<Rightarrow> chat \<Rightarrow> string \<times> chat" where
  "generateLeaderboard render final c =
     (let oldLeaderboard = myLastLeaderboard c;
          newLeaderboard = map snd (users c);
          leaderboard = leaderboardHeader final @ render newLeaderboard oldLeaderboard
      in (leaderboard,
          forEachUser resetLastScoreChange (c\<lparr>myLastLeaderboard := Some newLeaderboard\<rparr>)))"

definition punishUser :: "int \<Rightarrow> user \<Rightarrow> user" where
  "punishUser timestamp u =
     (if timestamp - lastScoreTimestamp u \<ge> 24 * 60 * 60
      then addToScore
             (- max (Math_round (timesDouble (of_int (score u)) punishByFraction)) punishByPoints)
             timestamp u
      else u)"

definition hardcoreModeCheck :: "int \<Rightarrow> chat \<Rightarrow> chat" where
  "hardcoreModeCheck timestamp c =
     (if hardcoreMode c
      then forEachUser (punishUser timestamp) c
      else c)"


subsection \<open>Handicap\<close>

text \<open>\<^verbatim>\<open>array.slice(start)\<close>: a negative start counts from the end.\<close>

definition slice :: "int \<Rightarrow> 'a list \<Rightarrow> 'a list" where
  "slice start xs =
     (let len = int (length xs);
          k = (if start < 0 then max (len + start) 0 else min start len)
      in drop (nat k) xs)"

definition userDeservesHandicapBonus :: "chat \<Rightarrow> int \<Rightarrow> bool" where
  "userDeservesHandicapBonus c userId =
     (if \<not> handicaps c \<or> length (users c) < 2 then False
      else
        let sorted = sortedUsers c;
            noOfHandicapped =
              Math_round (timesDouble (of_nat (length sorted)) bottomPartThatHasHandicap);
            handicapped = slice (- noOfHandicapped) sorted
        in list_ex (\<lambda>entry. id_user entry = userId) handicapped)"

subsection \<open>Processing a message\<close>

definition handleAwaitingReset ::
  "(leaderboard \<Rightarrow> leaderboard option \<Rightarrow> string) \<Rightarrow> int \<Rightarrow> string \<Rightarrow> string \<Rightarrow> int \<Rightarrow>
   chat \<Rightarrow> string list \<times> chat" where
  "handleAwaitingReset render userId userName msgText msgUnixTime c =
     (if awaitingResetConfirmation c = userId then
        let c1 = c\<lparr>awaitingResetConfirmation := - 1\<rparr> in
        if toUpperCase msgText = ''YES'' then
          let (leaderboard, c2) = generateLeaderboard render True c1;
              output = [''Leaderboard has been reset!'' @ [CHR 0x0A, CHR 0x0A] @ leaderboard];
              c3 = forEachUser resetScore c2;
              (triggered, c4) = trigger LeaderboardReset c3
          in (output @ triggered, c4)
        else ([], c1)
      else ([], c))"

definition getDankTimesByText :: "chat \<Rightarrow> string \<Rightarrow> dankTime list" where
  "getDankTimesByText c text = filter (\<lambda>d. hasText d text) (dankTimes c @ randomDankTimes c)"

text \<open>The local variable \<^verbatim>\<open>user\<close> is a reference to the entry of the users map under the
  sender's id: it is read by looking the entry up and written by updating the entry.
  Reading a field of a missing entry is JavaScript's TypeError.\<close>

definition withUser ::
  "int \<Rightarrow> chat \<Rightarrow> (user \<Rightarrow> (error + 'a) \<times> chat) \<Rightarrow> (error + 'a) \<times> chat" where
  "withUser userId c f =
     (case map_of (users c) userId of None \<Rightarrow> (Inl TypeError, c) | Some u \<Rightarrow> f u)"

definition updateUser :: "int \<Rightarrow> (user \<Rightarrow> user) \<Rightarrow> chat \<Rightarrow> chat" where
  "updateUser userId f c = c\<lparr>users := AList.map_entry userId f (users c)\<rparr>"

text \<open>The body of the loop for a time slot whose hour and minute are the current ones.\<close>

definition scoreDankTime ::
  "moment \<Rightarrow> int \<Rightarrow> dankTime \<Rightarrow> chat \<Rightarrow> (error + string list) \<times> chat" where
  "scoreDankTime now userId dankTime c =
     withUser userId c (\<lambda>user.
       if myLastHour c \<noteq> hour dankTime \<or> myLastMinute c \<noteq> minute dankTime then
         let c1 = forEachUser (\<lambda>user0. user0\<lparr>called := False\<rparr>) c in
         case set_lastHour (hour dankTime) c1 of
           (Some e, c2) \<Rightarrow> (Inl e, c2)
         | (None, c2) \<Rightarrow>
             (case set_lastMinute (minute dankTime) c2 of
                (Some e, c3) \<Rightarrow> (Inl e, c3)
              | (None, c3) \<Rightarrow>
                  let score0 = timesDouble (of_int (points dankTime)) (multiplier c3);
                      score1 = (if userDeservesHandicapBonus c3 (id_user user)
                                then timesDouble score0 handicapMultiplier else score0);
                      c4 = updateUser userId (addToScore (Math_round score1) (unix now)) c3
                  in withUser userId c4 (\<lambda>user4.
                       let (triggered, c5) = trigger (UserScoreChange user4 (Math_round score1)) c4;
                           c6 = updateUser userId (\<lambda>u. u\<lparr>called := True\<rparr>) c5
                       in if firstNotifications c6
                          then (Inr (triggered @ [clap @ '' '' @ name user4 @ '' was the first to score!'']), c6)
                          else (Inr triggered, c6)))
       else if called user then
         let c1 = updateUser userId (addToScore (- points dankTime) (unix now)) c
         in withUser userId c1 (\<lambda>user1.
              let (triggered, c2) = trigger (UserScoreChange user1 (- points dankTime)) c1
              in (Inr triggered, c2))
       else
         let score1 = Math_round (if userDeservesHandicapBonus c (id_user user)
                                  then timesDouble (of_int (points dankTime)) handicapMultiplier
                                  else of_int (points dankTime));
             c1 = updateUser userId (addToScore score1 (unix now)) c
         in withUser userId c1 (\<lambda>user1.
              let (triggered, c2) = trigger (UserScoreChange user1 score1) c1;
                  c3 = updateUser userId (\<lambda>u. u\<lparr>called := True\<rparr>) c2
              in (Inr triggered, c3)))"

text \<open>The code after the loop: no matched slot is for the current time.\<close>

definition punish :: "moment \<Rightarrow> int \<Rightarrow> int \<Rightarrow> chat \<Rightarrow> (error + string list) \<times> chat" where
  "punish now userId subtractBy c =
     (let c1 = updateUser userId (addToScore (- subtractBy) (unix now)) c
      in withUser userId c1 (\<lambda>user1.
           let (triggered, c2) = trigger (UserScoreChange user1 (- subtractBy)) c1
           in (Inr triggered, c2)))"

fun forDankTimes ::
  "moment \<Rightarrow> int \<Rightarrow> dankTime list \<Rightarrow> int \<Rightarrow> chat \<Rightarrow> (error + string list) \<times> chat" where
  "forDankTimes now userId [] subtractBy c = punish now userId subtractBy c"
| "forDankTimes now userId (dankTime # rest) subtractBy c =
     (if hours now = hour dankTime \<and> minutes now = minute dankTime
      then scoreDankTime now userId dankTime c
      else if points dankTime > subtractBy
      then forDankTimes now userId rest (points dankTime) c
      else forDankTimes now userId rest subtractBy c)"

definition handleDankTimeInputMessage ::
  "int \<Rightarrow> string \<Rightarrow> string \<Rightarrow> int \<Rightarrow> moment \<Rightarrow> chat \<Rightarrow> (error + string list) \<times> chat" where
  "handleDankTimeInputMessage userId userName msgText msgUnixTime now c =
     (let dankTimesByText = getDankTimesByText c msgText in
      if length dankTimesByText < 1 then (Inr [], c)
      else
        let c1 = (if map_of (users c) userId = None
                  then c\<lparr>users := AList.update userId (new_User userId userName) (users c)\<rparr>
                  else c)
        in withUser userId c1 (\<lambda>user.
             let c2 = (if name user \<noteq> userName
                       then updateUser userId (\<lambda>u. u\<lparr>name := userName\<rparr>) c1 else c1)
             in forDankTimes now userId dankTimesByText 0 c2))"

text \<open>The chat when the loop over the matched slots starts: the sender has an entry in the
  users map, created if it was missing, and carries the name of the message.\<close>

definition withSender :: "int \<Rightarrow> string \<Rightarrow> chat \<Rightarrow> chat" where
  "withSender userId userName c =
     updateUser userId (\<lambda>u. u\<lparr>name := userName\<rparr>)
       (if map_of (users c) userId = None
        then c\<lparr>users := AList.update userId (new_User userId userName) (users c)\<rparr>
        else c)"

definition processMessage ::
  "(leaderboard \<Rightarrow> leaderboard option \<Rightarrow> string) \<Rightarrow> moment \<Rightarrow> int \<Rightarrow> string \<Rightarrow> string \<Rightarrow> int \<Rightarrow>
   chat \<Rightarrow> (error + string list) \<times> chat" where
  "processMessage render now userId userName msgText msgUnixTime c =
     (let awaitingReset = (awaitingResetConfirmation c = userId) in
      if unix now - msgUnixTime \<ge> 60 then (Inr [], c)
      else
        let (pre, c1) = trigger (PreMesssage msgText) c;
            handled =
              (if awaitingReset then
                 (let (out, c2) = handleAwaitingReset render userId userName msgText msgUnixTime c1
                  in (Inr out, c2))
               else if running c1 then
                 handleDankTimeInputMessage userId userName msgText msgUnixTime now c1
               else (Inr [], c1))
        in case handled of
             (Inl e, c2) \<Rightarrow> (Inl e, c2)
           | (Inr out, c2) \<Rightarrow>
               let (post, c3) = trigger (PostMessage (cleanText (utilOf c2) msgText)) c2
               in (Inr (pre @ out @ post), c3))"


subsection \<open>Example chats\<close>

text \<open>The scenario of the specification: multiplier 2 and one time slot at 10:00 with the
  alias "bacon", worth 10 points. Hardcore mode and handicaps are not registered.\<close>

definition baconSettings :: settings where
  "baconSettings = \<lparr>timezone_setting = ''Etc/UTC'', multiplier_setting = 2,
     numberOfRandomTimes_setting = 3, pointsPerRandomTime_setting = 10,
     hardcoreMode_setting = None, handicaps_setting = None,
     firstNotifications_setting = Some True\<rparr>"

definition echoHost :: pluginHost where
  "echoHost = \<lparr>respond = (\<lambda>ev. case ev of LeaderboardReset \<Rightarrow> [''scores are gone''] | _ \<Rightarrow> []),
     fired = []\<rparr>"

definition baconChat :: chat where
  "baconChat = \<lparr>awaitingResetConfirmation = - 1, myId = Finite 5, myLastHour = 0,
     myLastMinute = 0, myLastLeaderboard = None, pluginHost = echoHost,
     utilOf = \<lparr>cleanText = (\<lambda>s. s)\<rparr>, running = True, users = [],
     dankTimes = [\<lparr>hour = 10, minute = 0, texts = [''bacon''], points = 10\<rparr>],
     randomDankTimes = [], settings = baconSettings\<rparr>"

text \<open>Time zones: UTC; Amsterdam around the start of daylight saving time on 29 March
  2026, 01:00 UTC; Lord Howe Island around the start of its daylight saving time, a
  shift of half an hour, on 3 October 2026, 15:30 UTC.\<close>

definition utc :: "int \<Rightarrow> int" where
  "utc t = 0"

definition amsterdam :: "int \<Rightarrow> int" where
  "amsterdam t = (if t < 1774746000 then 3600 else 7200)"

definition lordHowe :: "int \<Rightarrow> int" where
  "lordHowe t = (if t < 1791041400 then 37800 else 39600)"

definition tenOClock :: moment where
  "tenOClock = \<lparr>unix = 36000, zone = utc\<rparr>"

definition player :: "int \<Rightarrow> string \<Rightarrow> int \<Rightarrow> int \<Rightarrow> int \<Rightarrow> bool \<Rightarrow> user" where
  "player i n s ch ts cl = \<lparr>id_user = i, name = n, score = s, lastScoreChange = ch,
     lastScoreTimestamp = ts, called = cl\<rparr>"

definition threePlayers :: "(int \<times> user) list" where
  "threePlayers = [(1, player 1 ''A'' 250 0 0 False), (2, player 2 ''B'' 30 5 0 False),
     (3, player 3 ''C'' 70 0 50000 False)]"





text \<open>A stopped chat that waits for user 2 to confirm a reset.\<close>

definition resetChat :: chat where
  "resetChat = baconChat\<lparr>running := False, awaitingResetConfirmation := 2,
     users := threePlayers\<rparr>"

text \<open>Slots for other times of the day, and a slot whose points are negative.\<close>

definition lunchChat :: chat where
  "lunchChat = baconChat\<lparr>users := threePlayers,
     dankTimes := [\<lparr>hour = 12, minute = 0, texts = [''lunch'', ''bacon''], points = 4\<rparr>,
                   \<lparr>hour = 13, minute = 37, texts = [''bacon''], points = 7\<rparr>]\<rparr>"

definition negativeChat :: chat where
  "negativeChat = baconChat\<lparr>users := [(1, player 1 ''A'' 3 0 0 False)],
     dankTimes := [\<lparr>hour = 11, minute = 0, texts = [''x''], points = - 5\<rparr>]\<rparr>"



text \<open>A chat in which hardcore mode is registered with the value false.\<close>

definition lazyChat :: chat where
  "lazyChat = baconChat\<lparr>users := threePlayers,
     settings := baconSettings\<lparr>hardcoreMode_setting := Some False\<rparr>\<rparr>"

text \<open>A clock at 01:00 and draws of \<^verbatim>\<open>Math.random()\<close> that give an offset of 22 hours.\<close>

definition oneOClock :: moment where
  "oneOClock = \<lparr>unix = 3600, zone = utc\<rparr>"

definition lateDraws :: "nat \<Rightarrow> draw" where
  "lateDraws i = \<lparr>nowAt = oneOClock, random1 = 31 / 32, random2 = 1 / 2\<rparr>"

text \<open>Draws that give an offset of 2 hours and the minute 45, every time.\<close>

definition earlyDraws :: "nat \<Rightarrow> draw" where
  "earlyDraws i = \<lparr>nowAt = oneOClock, random1 = 1 / 8, random2 = 99 / 128\<rparr>"

text \<open>A chat in Amsterdam, the clock at 23:30 local time on 28 March 2026, and draws that
  give an offset of 5 hours and the minute 45: daylight saving time starts in between.\<close>

definition amsterdamChat :: chat where
  "amsterdamChat = baconChat\<lparr>settings := baconSettings\<lparr>timezone_setting := ''Europe/Amsterdam''\<rparr>\<rparr>"

definition springDraws :: "nat \<Rightarrow> draw" where
  "springDraws i = \<lparr>nowAt = \<lparr>unix = 1774737000, zone = amsterdam\<rparr>, random1 = 1 / 4,
     random2 = 99 / 128\<rparr>"

text \<open>A chat on Lord Howe Island, the clock at 02:45 local time on 4 October 2026, a
  quarter of an hour after the clocks went from 02:00 to 02:30, and draws that give an
  offset of 0 hours and the minute 29.\<close>

definition howeChat :: chat where
  "howeChat = baconChat\<lparr>settings := baconSettings\<lparr>timezone_setting := ''Australia/Lord_Howe''\<rparr>\<rparr>"

definition howeDraws :: "nat \<Rightarrow> draw" where
  "howeDraws i = \<lparr>nowAt = \<lparr>unix = 1791042300, zone = lordHowe\<rparr>, random1 = 0,
     random2 = 1 / 2\<rparr>"

text \<open>A leaderboard rendering that prints nothing, and a running chat that waits for
  user 2 to confirm a reset.\<close>

definition blankRender :: "leaderboard \<Rightarrow> leaderboard option \<Rightarrow> string" where
  "blankRender l previous = []"

definition pendingChat :: chat where
  "pendingChat = baconChat\<lparr>awaitingResetConfirmation := 2, users := threePlayers\<rparr>"

section \<open>Properties\<close>

subsection \<open>Auxiliary facts\<close>

lemma halvings_le: "x < 2 ^ Suc n \<Longrightarrow> halvings x \<le> n"
proof (induction n arbitrary: x)
  case 0
  then show ?case by (subst halvings.simps) simp
next
  case (Suc n)
  show ?case
  proof (cases "2 \<le> x")
    case True
    from Suc.prems have "x / 2 < 2 ^ Suc n" by simp
    from Suc.IH [OF this] True show ?thesis by (subst halvings.simps) simp
  next
    case False
    then show ?thesis by (subst halvings.simps) simp
  qed
qed

lemma halvings_ge: "2 ^ n \<le> x \<Longrightarrow> n \<le> halvings x"
proof (induction n arbitrary: x)
  case 0
  then show ?case by simp
next
  case (Suc n)
  then have "2 ^ n \<le> x / 2" by simp
  from Suc.IH [OF this] have "n \<le> halvings (x / 2)" .
  moreover have "2 \<le> x"
  proof -
    have "(1::rat) \<le> 2 ^ n" by simp
    then have "(2::rat) \<le> 2 ^ Suc n" by simp
    with Suc.prems show ?thesis by linarith
  qed
  ultimately show ?case by (subst halvings.simps) simp
qed

lemma exponent_binade: "2 ^ n \<le> x \<Longrightarrow> x < 2 ^ Suc n \<Longrightarrow> exponent x = int n"
proof -
  assume a: "2 ^ n \<le> x" and b: "x < 2 ^ Suc n"
  have "(1::rat) \<le> 2 ^ n" by simp
  with a have "1 \<le> x" by linarith
  moreover have "halvings x = n" using halvings_le [OF b] halvings_ge [OF a] by simp
  ultimately show ?thesis by (simp add: exponent_def)
qed

lemma exponent_below: "x < 2 ^ Suc n \<Longrightarrow> exponent x \<le> int n"
  using halvings_le [of x n] by (simp add: exponent_def)

lemma roundHalfEven_le: "of_int (roundHalfEven q) \<le> q + 1 / 2"
proof -
  have f: "of_int \<lfloor>q\<rfloor> \<le> q" by simp
  show ?thesis
  proof (cases "q - of_int \<lfloor>q\<rfloor> < 1 / 2")
    case True
    then have "roundHalfEven q = \<lfloor>q\<rfloor>" by (simp add: roundHalfEven_def Let_def)
    with f show ?thesis by linarith
  next
    case False
    then have "roundHalfEven q \<le> \<lfloor>q\<rfloor> + 1" by (simp add: roundHalfEven_def Let_def)
    then have "(of_int (roundHalfEven q) :: rat) \<le> of_int (\<lfloor>q\<rfloor> + 1)"
      by (simp only: of_int_le_iff)
    then have "(of_int (roundHalfEven q) :: rat) \<le> of_int \<lfloor>q\<rfloor> + 1" by simp
    with False show ?thesis by linarith
  qed
qed

lemma roundHalfEven_nonneg: "0 \<le> q \<Longrightarrow> 0 \<le> roundHalfEven q"
  by (auto simp: roundHalfEven_def Let_def)

lemma ulp_pos: "0 < ulp x"
  by (simp add: ulp_def)

lemma toDouble_nonneg: "0 \<le> x \<Longrightarrow> 0 \<le> toDouble x"
  using ulp_pos [of x] by (simp add: toDouble_def roundHalfEven_nonneg)

lemma toDouble_le: "toDouble x \<le> x + ulp x / 2"
proof -
  have "toDouble x \<le> (x / ulp x + 1 / 2) * ulp x"
    unfolding toDouble_def using ulp_pos [of x] roundHalfEven_le [of "x / ulp x"]
    by (intro mult_right_mono) simp_all
  also have "\<dots> = x + ulp x / 2"
    using ulp_pos [of x] by (simp add: field_simps)
  finally show ?thesis .
qed

lemma toDouble_small:
  assumes "0 \<le> x" "x < 2 ^ Suc n" "n \<le> 52"
  shows "toDouble x < 2 ^ Suc n + 1"
proof -
  have "exponent \<bar>x\<bar> \<le> int n" using assms by (simp add: exponent_below)
  then have "max (exponent \<bar>x\<bar> - 52) (- 1074) \<le> 0" using assms(3) by simp
  then have "ulp x \<le> power_int 2 0"
    unfolding ulp_def by (intro power_int_increasing) simp_all
  then have "ulp x \<le> 1" by simp
  with toDouble_le [of x] assms(2) show ?thesis by linarith
qed

lemma toDouble_binade:
  assumes lo: "2 ^ n \<le> x" and hi: "x < of_int m / 2 ^ (52 - n) - 1 / 2 ^ (53 - n)"
    and le: "(of_int m :: rat) / 2 ^ (52 - n) \<le> 2 ^ Suc n" and n: "n \<le> 52"
  shows "toDouble x \<le> of_int (m - 1) / 2 ^ (52 - n)"
proof -
  have p: "(0::rat) < 2 ^ (52 - n)" by simp
  have "(1::rat) \<le> 2 ^ n" by simp
  with lo have pos: "0 \<le> x" by linarith
  have "(0::rat) < 1 / 2 ^ (53 - n)" by simp
  with hi le have "x < 2 ^ Suc n" by linarith
  with lo pos have e: "exponent \<bar>x\<bar> = int n" by (simp add: exponent_binade)
  have "max (exponent \<bar>x\<bar> - 52) (- 1074) = - int (52 - n)" using e n by simp
  then have "ulp x = inverse (2 ^ (52 - n))"
    by (simp only: ulp_def power_int_minus power_int_of_nat)
  then have u: "ulp x = 1 / 2 ^ (52 - n)" by (simp add: inverse_eq_divide)
  have s: "(2::rat) ^ (53 - n) = 2 * 2 ^ (52 - n)"
    using n by (simp add: Suc_diff_le flip: power_Suc)
  have "x * 2 ^ (52 - n) < of_int m - 1 / 2"
    using hi p by (simp add: s field_simps)
  with roundHalfEven_le [of "x * 2 ^ (52 - n)"]
  have "of_int (roundHalfEven (x * 2 ^ (52 - n))) < (of_int m :: rat)" by linarith
  then have "roundHalfEven (x * 2 ^ (52 - n)) \<le> m - 1" by simp
  then have "(of_int (roundHalfEven (x * 2 ^ (52 - n))) :: rat) \<le> of_int (m - 1)"
    by (simp only: of_int_le_iff)
  then show ?thesis
    using p by (simp add: toDouble_def u divide_right_mono)
qed

lemma floor_random_59:
  assumes "0 \<le> r" "r \<le> 1 - 1 / 2 ^ 53"
  shows "0 \<le> \<lfloor>timesDouble r 59\<rfloor> \<and> \<lfloor>timesDouble r 59\<rfloor> \<le> 58"
proof -
  let ?x = "r * 59"
  have x: "0 \<le> ?x" "?x \<le> 59 - 59 / 2 ^ 53" using assms by simp_all
  have a: "0 \<le> \<lfloor>toDouble ?x\<rfloor>" using toDouble_nonneg [OF x(1)] by simp
  have "toDouble ?x < 59"
  proof (cases "?x < 32")
    case True
    from toDouble_small [OF x(1), of 4] True show ?thesis by simp
  next
    case False
    then have lo: "2 ^ 5 \<le> ?x" by simp
    from toDouble_binade [OF lo, of "59 * 2 ^ 47"] x(2)
    have "toDouble ?x \<le> of_int (59 * 2 ^ 47 - 1) / 2 ^ 47" by simp
    then show ?thesis by simp
  qed
  then have "\<lfloor>toDouble ?x\<rfloor> < 59" by (simp add: floor_less_iff)
  with a show ?thesis by (simp add: timesDouble_def)
qed


lemma doublings_eq: "0 < x \<Longrightarrow> 1 \<le> x * 2 ^ n \<Longrightarrow> x * 2 ^ n < 2 \<Longrightarrow> doublings x = n"
proof (induction n arbitrary: x)
  case 0
  then show ?case by (subst doublings.simps) simp
next
  case (Suc n)
  have "(1::rat) \<le> 2 ^ n" by simp
  then have "x * 1 \<le> x * 2 ^ n" using Suc.prems(1) by (intro mult_left_mono) simp_all
  with Suc.prems(3) have x: "x < 1" by simp
  have "doublings (2 * x) = n"
    using Suc.prems by (intro Suc.IH) (simp_all add: mult.assoc mult.left_commute)
  with x Suc.prems(1) show ?case by (subst doublings.simps) simp
qed

lemma toDouble_normal:
  assumes lo: "2 ^ n \<le> \<bar>x\<bar>" and hi: "\<bar>x\<bar> < 2 ^ Suc n" and n: "n \<le> 52"
  shows "toDouble x = of_int (roundHalfEven (x * 2 ^ (52 - n))) / 2 ^ (52 - n)"
proof -
  have e: "exponent \<bar>x\<bar> = int n" using lo hi by (rule exponent_binade)
  have "max (exponent \<bar>x\<bar> - 52) (- 1074) = - int (52 - n)" using e n by simp
  then have "ulp x = inverse (2 ^ (52 - n))"
    by (simp only: ulp_def power_int_minus power_int_of_nat)
  then have u: "ulp x = 1 / 2 ^ (52 - n)" by (simp add: inverse_eq_divide)
  show ?thesis by (simp add: toDouble_def u)
qed

lemma toDouble_fraction:
  assumes lo: "1 \<le> \<bar>x\<bar> * 2 ^ n" and hi: "\<bar>x\<bar> * 2 ^ n < 2" and n: "0 < n" "n \<le> 1022"
  shows "toDouble x = of_int (roundHalfEven (x * 2 ^ (52 + n))) / 2 ^ (52 + n)"
proof -
  have pos: "0 < \<bar>x\<bar>"
  proof (rule ccontr)
    assume "\<not> 0 < \<bar>x\<bar>"
    then have "\<bar>x\<bar> = 0" by simp
    with lo show False by simp
  qed
  have d: "doublings \<bar>x\<bar> = n" using pos lo hi by (rule doublings_eq)
  have "(2::rat) \<le> 2 ^ n" using n(1) by (metis One_nat_def Suc_leI one_le_numeral power_increasing power_one_right)
  then have "\<bar>x\<bar> * 2 \<le> \<bar>x\<bar> * 2 ^ n" by (intro mult_left_mono) simp_all
  with hi have "\<bar>x\<bar> < 1" by simp
  then have e: "exponent \<bar>x\<bar> = - int n" by (simp add: exponent_def d)
  have "max (exponent \<bar>x\<bar> - 52) (- 1074) = - int (52 + n)" using e n by simp
  then have "ulp x = inverse (2 ^ (52 + n))"
    by (simp only: ulp_def power_int_minus power_int_of_nat)
  then have u: "ulp x = 1 / 2 ^ (52 + n)" by (simp add: inverse_eq_divide)
  show ?thesis by (simp add: toDouble_def u)
qed


lemma floor_rat_numeral: "\<lfloor>(numeral a :: rat) / numeral b\<rfloor> = numeral a div numeral b"
  using floor_divide_of_int_eq [of "numeral a" "numeral b", where ?'a = rat] by simp

lemmas double_eval = roundHalfEven_def Let_def floor_rat_numeral Math_round_def timesDouble_def


lemma hours_range: "0 \<le> hours m \<and> hours m \<le> 23"
  by (simp add: hours_def)

lemma minutes_range: "0 \<le> minutes m \<and> minutes m \<le> 59"
  by (simp add: minutes_def)

lemma anyChanged_iff: "anyChanged es \<longleftrightarrow> (\<exists>e\<in>set es. lastScoreChange (snd e) \<noteq> 0)"
  by (induction es) auto

lemma users_generateLeaderboard:
  "users (snd (generateLeaderboard render final c)) =
     map (\<lambda>(k, u). (k, resetLastScoreChange u)) (users c)"
  by (simp add: generateLeaderboard_def forEachUser_def Let_def)

lemma rem1_zero_iff: "rem1 (Finite q) = Finite 0 \<longleftrightarrow> q \<in> \<int>"
proof
  assume "rem1 (Finite q) = Finite 0"
  then have "q = of_int (trunc q)" by simp
  then show "q \<in> \<int>" by (metis Ints_of_int)
next
  assume "q \<in> \<int>"
  then obtain k where "q = of_int k" by (auto elim: Ints_cases)
  then show "rem1 (Finite q) = Finite 0" by (simp add: trunc_def)
qed

lemma strict_rem1_iff:
  "strictNotEqual (rem1 i) (Finite 0) \<longleftrightarrow> \<not> (\<exists>k::int. i = Finite (of_int k))"
proof (cases i)
  case (Finite q)
  have "(\<exists>k::int. q = of_int k) \<longleftrightarrow> q \<in> \<int>" by (auto elim: Ints_cases)
  then show ?thesis using Finite rem1_zero_iff [of q]
    by (simp add: strictNotEqual_def)
qed (simp_all add: strictNotEqual_def)

lemma new_Chat_bad_id:
  "strictNotEqual (rem1 i) (Finite 0) \<Longrightarrow>
   new_Chat u i ph run lastHour lastMinute us dts rdts sts = Inl RangeError"
  by (simp add: new_Chat_def set_id_def)

lemma five_halves: "\<not> (\<exists>k::int. Finite (5 / 2) = Finite (of_int k))"
proof
  assume "\<exists>k::int. Finite (5 / 2) = Finite (of_int k)"
  then obtain k :: int where "(of_int k :: rat) = 5 / 2" by auto
  then have "(of_int (2 * k) :: rat) = of_int 5" by simp
  then have "2 * k = 5" by (simp only: of_int_eq_iff)
  then show False by presburger
qed

lemma punishUser_stale:
  "timestamp - lastScoreTimestamp u \<ge> 86400 \<Longrightarrow>
   punishUser timestamp u =
     u\<lparr>score := score u - max (Math_round (timesDouble (of_int (score u)) punishByFraction)) 10,
       lastScoreChange := lastScoreChange u -
         max (Math_round (timesDouble (of_int (score u)) punishByFraction)) 10,
       lastScoreTimestamp := timestamp\<rparr>"
  by (simp add: punishUser_def addToScore_def punishByPoints_def)

lemma punishUser_fresh: "timestamp - lastScoreTimestamp u < 86400 \<Longrightarrow> punishUser timestamp u = u"
  by (simp add: punishUser_def)

lemma upperChar_YES:
  "upperChar a = CHR ''Y'' \<longleftrightarrow> a = CHR ''y'' \<or> a = CHR ''Y''"
  "upperChar a = CHR ''E'' \<longleftrightarrow> a = CHR ''e'' \<or> a = CHR ''E''"
  "upperChar a = CHR ''S'' \<longleftrightarrow> a = CHR ''s'' \<or> a = CHR ''S''"
  by (simp_all add: upperChar_def)

lemma toUpperCase_Nil: "toUpperCase s = [] \<longleftrightarrow> s = []"
  by (cases s rule: toUpperCase.cases) simp_all

lemma toUpperCase_S:
  "toUpperCase s = ''S'' \<longleftrightarrow> s = ''s'' \<or> s = ''S'' \<or> s = [CHR 0xC5, CHR 0xBF]"
proof (cases s rule: toUpperCase.cases)
  case 1
  then show ?thesis by simp
next
  case (2 a)
  then show ?thesis by (simp add: upperChar_YES)
next
  case (3 a b t)
  show ?thesis
  proof (cases "a = CHR 0xC5 \<and> b = CHR 0xBF")
    case True
    then show ?thesis using 3 by (simp add: toUpperCase_Nil)
  next
    case False
    have "toUpperCase (b # t) \<noteq> []" by (simp add: toUpperCase_Nil)
    then show ?thesis using 3 False by auto
  qed
qed


lemma toUpperCase_head:
  assumes "x \<noteq> CHR ''S''" "x \<noteq> CHR 0xC5"
  shows "toUpperCase s = x # r \<longleftrightarrow> (\<exists>a t. s = a # t \<and> upperChar a = x \<and> toUpperCase t = r)"
proof (cases s rule: toUpperCase.cases)
  case 1
  then show ?thesis by simp
next
  case (2 a)
  then show ?thesis by auto
next
  case (3 a b t)
  have c5: "upperChar (CHR 0xC5) = CHR 0xC5" by (simp add: upperChar_def)
  show ?thesis
  proof (cases "a = CHR 0xC5 \<and> b = CHR 0xBF")
    case True
    then show ?thesis using 3 assms c5 by auto
  next
    case False
    then show ?thesis using 3 by auto
  qed
qed

lemma toUpperCase_YES:
  "toUpperCase s = ''YES'' \<longleftrightarrow>
     (\<exists>a b t. s = a # b # t \<and> (a = CHR ''y'' \<or> a = CHR ''Y'') \<and> (b = CHR ''e'' \<or> b = CHR ''E'') \<and>
        (t = ''s'' \<or> t = ''S'' \<or> t = [CHR 0xC5, CHR 0xBF]))"
proof -
  have "toUpperCase s = ''YES'' \<longleftrightarrow>
      (\<exists>a t. s = a # t \<and> upperChar a = CHR ''Y'' \<and> toUpperCase t = ''ES'')"
    by (rule toUpperCase_head) simp_all
  also have "\<dots> \<longleftrightarrow> (\<exists>a t. s = a # t \<and> upperChar a = CHR ''Y'' \<and>
      (\<exists>b t'. t = b # t' \<and> upperChar b = CHR ''E'' \<and> toUpperCase t' = ''S''))"
    by (subst toUpperCase_head) simp_all
  also have "\<dots> \<longleftrightarrow> (\<exists>a b t. s = a # b # t \<and> (a = CHR ''y'' \<or> a = CHR ''Y'') \<and>
        (b = CHR ''e'' \<or> b = CHR ''E'') \<and>
        (t = ''s'' \<or> t = ''S'' \<or> t = [CHR 0xC5, CHR 0xBF]))"
    unfolding toUpperCase_S upperChar_YES by blast
  finally show ?thesis .
qed

lemma hardcoreModeCheck_registered:
  "hardcoreMode_setting (settings c) = Some v \<Longrightarrow>
   hardcoreModeCheck timestamp c = forEachUser (punishUser timestamp) c"
  by (simp add: hardcoreModeCheck_def hardcoreMode_def)

lemma hardcoreModeCheck_unregistered:
  "hardcoreMode_setting (settings c) = None \<Longrightarrow> hardcoreModeCheck timestamp c = c"
  by (simp add: hardcoreModeCheck_def hardcoreMode_def)

lemma toDouble_zero: "toDouble 0 = 0"
  by (simp add: toDouble_def roundHalfEven_def)





lemma draws_floor:
  "\<lfloor>timesDouble (1 / 8) 23\<rfloor> = 2" "\<lfloor>timesDouble (99 / 128) 59\<rfloor> = 45"
  "\<lfloor>timesDouble (31 / 32) 23\<rfloor> = 22" "\<lfloor>timesDouble (1 / 2) 59\<rfloor> = 29"
  "\<lfloor>timesDouble (1 / 4) 23\<rfloor> = 5" "\<lfloor>timesDouble 0 23\<rfloor> = 0"
  unfolding timesDouble_def
       apply (subst toDouble_normal [where n = 1]; simp add: double_eval)
      apply (subst toDouble_normal [where n = 5]; simp add: double_eval)
     apply (subst toDouble_normal [where n = 4]; simp add: double_eval)
    apply (subst toDouble_normal [where n = 4]; simp add: double_eval)
   apply (subst toDouble_normal [where n = 2]; simp add: double_eval)
  apply (simp add: toDouble_zero)
  done

lemma tenth: "toDouble (1 / 10) = 3602879701896397 / 36028797018963968"
  by (subst toDouble_fraction [where n = 4]) (simp_all add: double_eval)

lemma tenth_of_250: "Math_round (timesDouble 250 punishByFraction) = 25"
  unfolding timesDouble_def punishByFraction_def tenth
  by (subst toDouble_normal [where n = 4]) (simp_all add: double_eval)

lemma tenth_of_30: "Math_round (timesDouble 30 punishByFraction) = 3"
  unfolding timesDouble_def punishByFraction_def tenth
  by (subst toDouble_normal [where n = 1]) (simp_all add: double_eval)

lemma map_of_forEachUser:
  "map_of (users (forEachUser f c)) k = map_option f (map_of (users c) k)"
  by (simp add: forEachUser_def map_of_map)

lemma map_of_updateUser:
  "map_of (users (updateUser k f c)) k' =
     (if k' = k then map_option f (map_of (users c) k) else map_of (users c) k')"
  by (simp add: updateUser_def map_of_map_entry split: option.splits)

lemma forEachUser_fields:
  "awaitingResetConfirmation (forEachUser f c) = awaitingResetConfirmation c"
  "myId (forEachUser f c) = myId c"
  "myLastHour (forEachUser f c) = myLastHour c"
  "myLastMinute (forEachUser f c) = myLastMinute c"
  "myLastLeaderboard (forEachUser f c) = myLastLeaderboard c"
  "pluginHost (forEachUser f c) = pluginHost c"
  "utilOf (forEachUser f c) = utilOf c"
  "running (forEachUser f c) = running c"
  "dankTimes (forEachUser f c) = dankTimes c"
  "randomDankTimes (forEachUser f c) = randomDankTimes c"
  "settings (forEachUser f c) = settings c"
  by (simp_all add: forEachUser_def)

lemma updateUser_fields:
  "awaitingResetConfirmation (updateUser k f c) = awaitingResetConfirmation c"
  "myId (updateUser k f c) = myId c"
  "myLastHour (updateUser k f c) = myLastHour c"
  "myLastMinute (updateUser k f c) = myLastMinute c"
  "myLastLeaderboard (updateUser k f c) = myLastLeaderboard c"
  "pluginHost (updateUser k f c) = pluginHost c"
  "utilOf (updateUser k f c) = utilOf c"
  "running (updateUser k f c) = running c"
  "dankTimes (updateUser k f c) = dankTimes c"
  "randomDankTimes (updateUser k f c) = randomDankTimes c"
  "settings (updateUser k f c) = settings c"
  by (simp_all add: updateUser_def)

lemma logEvent_fields:
  "awaitingResetConfirmation (logEvent ev c) = awaitingResetConfirmation c"
  "myId (logEvent ev c) = myId c"
  "myLastHour (logEvent ev c) = myLastHour c"
  "myLastMinute (logEvent ev c) = myLastMinute c"
  "myLastLeaderboard (logEvent ev c) = myLastLeaderboard c"
  "fired (pluginHost (logEvent ev c)) = fired (pluginHost c) @ [ev]"
  "respond (pluginHost (logEvent ev c)) = respond (pluginHost c)"
  "utilOf (logEvent ev c) = utilOf c"
  "running (logEvent ev c) = running c"
  "users (logEvent ev c) = users c"
  "dankTimes (logEvent ev c) = dankTimes c"
  "randomDankTimes (logEvent ev c) = randomDankTimes c"
  "settings (logEvent ev c) = settings c"
  by (simp_all add: logEvent_def)

lemmas chat_fields = forEachUser_fields updateUser_fields logEvent_fields
  map_of_forEachUser map_of_updateUser




lemma punish_found:
  assumes u: "map_of (users c) userId = Some u"
    and ev: "ev = UserScoreChange (addToScore (- s) (unix now) u) (- s)"
  shows "punish now userId s c =
     (Inr (respond (pluginHost c) ev),
      logEvent ev (updateUser userId (addToScore (- s) (unix now)) c))"
  unfolding punish_def
  by (simp add: Let_def withUser_def chat_fields u trigger_def ev)


lemma forDankTimes_none:
  "find (\<lambda>d. hours now = hour d \<and> minutes now = minute d) ds = None \<Longrightarrow>
   forDankTimes now userId ds s c = punish now userId (Max (insert s (points ` set ds))) c"
proof (induction ds arbitrary: s)
  case Nil
  then show ?case by simp
next
  case (Cons d ds)
  then have nf: "find (\<lambda>d. hours now = hour d \<and> minutes now = minute d) ds = None"
    and nd: "\<not> (hours now = hour d \<and> minutes now = minute d)"
    by (auto split: if_splits)
  have fin: "finite (points ` set ds)" by simp
  show ?case
  proof (cases "points d > s")
    case True
    have ge: "points d \<le> Max (insert (points d) (points ` set ds))"
      using fin by (intro Max_ge) simp_all
    have "Max (insert s (insert (points d) (points ` set ds))) =
            max s (Max (insert (points d) (points ` set ds)))"
      using fin by (intro Max_insert) simp_all
    also have "\<dots> = Max (insert (points d) (points ` set ds))"
    proof -
      from True ge have "s \<le> Max (insert (points d) (points ` set ds))" by linarith
      then show ?thesis by (rule max_absorb2)
    qed
    finally have "Max (insert s (points ` set (d # ds))) = Max (insert (points d) (points ` set ds))"
      by simp
    then show ?thesis using True nd Cons.IH [OF nf] by auto
  next
    case False
    have ge: "s \<le> Max (insert s (points ` set ds))"
      using fin by (intro Max_ge) simp_all
    have "Max (insert (points d) (insert s (points ` set ds))) =
            max (points d) (Max (insert s (points ` set ds)))"
      using fin by (intro Max_insert) simp_all
    also have "\<dots> = Max (insert s (points ` set ds))"
    proof -
      from False ge have "points d \<le> Max (insert s (points ` set ds))" by linarith
      then show ?thesis by (rule max_absorb2)
    qed
    finally have "Max (insert s (points ` set (d # ds))) = Max (insert s (points ` set ds))"
      by (simp add: insert_commute)
    then show ?thesis using False nd Cons.IH [OF nf] by auto
  qed
qed

lemma map_entry_id:
  "map_of xs k = Some v \<Longrightarrow> f v = v \<Longrightarrow> AList.map_entry k f xs = xs"
  by (induction xs) (auto split: if_splits)

lemma handleDankTimeInputMessage_loop:
  assumes "getDankTimesByText c msgText \<noteq> []"
  shows "handleDankTimeInputMessage userId userName msgText t now c =
     forDankTimes now userId (getDankTimesByText c msgText) 0 (withSender userId userName c)"
proof (cases "map_of (users c) userId")
  case None
  have l: "map_of (AList.update userId (new_User userId userName) (users c)) userId =
             Some (new_User userId userName)"
    by (simp add: update_conv')
  have "AList.map_entry userId (\<lambda>u. u\<lparr>name := userName\<rparr>)
          (AList.update userId (new_User userId userName) (users c)) =
        AList.update userId (new_User userId userName) (users c)"
    by (rule map_entry_id [OF l]) (simp add: new_User_def)
  then show ?thesis using None assms l
    by (simp add: handleDankTimeInputMessage_def withSender_def withUser_def updateUser_def Let_def
        new_User_def)
next
  case (Some u)
  have "name u = userName \<Longrightarrow> AList.map_entry userId (\<lambda>u. u\<lparr>name := userName\<rparr>) (users c) = users c"
    by (rule map_entry_id [OF Some]) simp
  then show ?thesis using Some assms
    by (auto simp: handleDankTimeInputMessage_def withSender_def withUser_def updateUser_def Let_def)
qed

lemma handleDankTimeInputMessage_nothing:
  "getDankTimesByText c msgText = [] \<Longrightarrow>
   handleDankTimeInputMessage userId userName msgText t now c = (Inr [], c)"
  by (simp add: handleDankTimeInputMessage_def)

lemma withSender_fields:
  "awaitingResetConfirmation (withSender i n c) = awaitingResetConfirmation c"
  "myId (withSender i n c) = myId c"
  "myLastHour (withSender i n c) = myLastHour c"
  "myLastMinute (withSender i n c) = myLastMinute c"
  "myLastLeaderboard (withSender i n c) = myLastLeaderboard c"
  "pluginHost (withSender i n c) = pluginHost c"
  "utilOf (withSender i n c) = utilOf c"
  "running (withSender i n c) = running c"
  "dankTimes (withSender i n c) = dankTimes c"
  "randomDankTimes (withSender i n c) = randomDankTimes c"
  "settings (withSender i n c) = settings c"
  by (simp_all add: withSender_def updateUser_def)

lemma map_of_withSender:
  "map_of (users (withSender i n c)) k =
     (if k = i then Some (case map_of (users c) i of None \<Rightarrow> new_User i n
                          | Some u \<Rightarrow> u\<lparr>name := n\<rparr>)
      else map_of (users c) k)"
  by (auto simp: withSender_def map_of_updateUser update_conv' new_User_def)








lemma frame_scoreDankTime:
  "awaitingResetConfirmation (snd (scoreDankTime now userId d c)) = awaitingResetConfirmation c \<and>
   myLastLeaderboard (snd (scoreDankTime now userId d c)) = myLastLeaderboard c \<and>
   running (snd (scoreDankTime now userId d c)) = running c \<and>
   count_list (fired (pluginHost (snd (scoreDankTime now userId d c)))) LeaderboardReset =
     count_list (fired (pluginHost c)) LeaderboardReset"
proof (cases "map_of (users c) userId")
  case None
  then show ?thesis by (simp add: scoreDankTime_def withUser_def)
next
  case (Some u)
  then show ?thesis
    by (simp add: scoreDankTime_def withUser_def chat_fields Let_def set_lastHour_def
        set_lastMinute_def trigger_def)
qed

lemma frame_punish:
  "awaitingResetConfirmation (snd (punish now userId s c)) = awaitingResetConfirmation c \<and>
   myLastLeaderboard (snd (punish now userId s c)) = myLastLeaderboard c \<and>
   running (snd (punish now userId s c)) = running c \<and>
   count_list (fired (pluginHost (snd (punish now userId s c)))) LeaderboardReset =
     count_list (fired (pluginHost c)) LeaderboardReset"
proof (cases "map_of (users c) userId")
  case None
  then show ?thesis
    by (simp add: punish_def withUser_def chat_fields Let_def)
next
  case (Some u)
  then show ?thesis
    by (simp add: punish_def withUser_def chat_fields Let_def trigger_def)
qed

lemma frame_forDankTimes:
  "awaitingResetConfirmation (snd (forDankTimes now userId ds s c)) = awaitingResetConfirmation c \<and>
   myLastLeaderboard (snd (forDankTimes now userId ds s c)) = myLastLeaderboard c \<and>
   running (snd (forDankTimes now userId ds s c)) = running c \<and>
   count_list (fired (pluginHost (snd (forDankTimes now userId ds s c)))) LeaderboardReset =
     count_list (fired (pluginHost c)) LeaderboardReset"
  by (induction ds arbitrary: s) (simp_all add: frame_punish frame_scoreDankTime)

lemma frame_handleDankTimeInputMessage:
  "awaitingResetConfirmation (snd (handleDankTimeInputMessage userId userName msgText t now c)) =
     awaitingResetConfirmation c \<and>
   myLastLeaderboard (snd (handleDankTimeInputMessage userId userName msgText t now c)) =
     myLastLeaderboard c \<and>
   running (snd (handleDankTimeInputMessage userId userName msgText t now c)) = running c \<and>
   count_list (fired (pluginHost (snd (handleDankTimeInputMessage userId userName msgText t now c))))
       LeaderboardReset =
     count_list (fired (pluginHost c)) LeaderboardReset"
proof (cases "getDankTimesByText c msgText = []")
  case True
  then show ?thesis by (simp add: handleDankTimeInputMessage_nothing)
next
  case False
  then show ?thesis
    by (simp add: handleDankTimeInputMessage_loop frame_forDankTimes withSender_fields)
qed

lemma processMessage_fresh:
  assumes "unix now - msgUnixTime < 60"
  shows "processMessage render now userId userName msgText msgUnixTime c =
     (let c1 = logEvent (PreMesssage msgText) c;
          handled =
              (if awaitingResetConfirmation c = userId then
                 (Inr (fst (handleAwaitingReset render userId userName msgText msgUnixTime c1)),
                  snd (handleAwaitingReset render userId userName msgText msgUnixTime c1))
               else if running c then
                 handleDankTimeInputMessage userId userName msgText msgUnixTime now c1
               else (Inr [], c1))
      in case fst handled of
           Inl e \<Rightarrow> (Inl e, snd handled)
         | Inr out \<Rightarrow>
             (Inr (respond (pluginHost c) (PreMesssage msgText) @ out @
                   respond (pluginHost (snd handled))
                     (PostMessage (cleanText (utilOf (snd handled)) msgText))),
              logEvent (PostMessage (cleanText (utilOf (snd handled)) msgText)) (snd handled)))"
  using assms
  by (simp add: processMessage_def trigger_def Let_def chat_fields case_prod_beta
      split: sum.splits prod.splits)

lemma handleAwaitingReset_yes:
  assumes "awaitingResetConfirmation c = userId" and "toUpperCase msgText = ''YES''"
  shows "handleAwaitingReset render userId userName msgText t c =
     ([''Leaderboard has been reset!'' @ [CHR 0x0A, CHR 0x0A] @ leaderboardHeader True @
         render (map snd (users c)) (myLastLeaderboard c)] @
      respond (pluginHost c) LeaderboardReset,
      logEvent LeaderboardReset
        (forEachUser resetScore
          (forEachUser resetLastScoreChange
             (c\<lparr>awaitingResetConfirmation := - 1,
                myLastLeaderboard := Some (map snd (users c))\<rparr>))))"
  using assms
  by (simp add: handleAwaitingReset_def generateLeaderboard_def trigger_def Let_def chat_fields)

lemma handleAwaitingReset_no:
  assumes "awaitingResetConfirmation c = userId" and "toUpperCase msgText \<noteq> ''YES''"
  shows "handleAwaitingReset render userId userName msgText t c =
           ([], c\<lparr>awaitingResetConfirmation := - 1\<rparr>)"
  using assms by (simp add: handleAwaitingReset_def)

lemma processMessage_reset_yes:
  assumes aw: "awaitingResetConfirmation c = userId" and fresh: "unix now - t < 60"
    and yes: "toUpperCase msgText = ''YES''"
  shows "processMessage render now userId userName msgText t c =
     (Inr (respond (pluginHost c) (PreMesssage msgText) @
           [''Leaderboard has been reset!'' @ [CHR 0x0A, CHR 0x0A] @ leaderboardHeader True @
              render (map snd (users c)) (myLastLeaderboard c)] @
           respond (pluginHost c) LeaderboardReset @
           respond (pluginHost c) (PostMessage (cleanText (utilOf c) msgText))),
      logEvent (PostMessage (cleanText (utilOf c) msgText))
        (logEvent LeaderboardReset
          (forEachUser resetScore
            (forEachUser resetLastScoreChange
               ((logEvent (PreMesssage msgText) c)\<lparr>awaitingResetConfirmation := - 1,
                  myLastLeaderboard := Some (map snd (users c))\<rparr>)))))"
proof -
  have a: "awaitingResetConfirmation (logEvent (PreMesssage msgText) c) = userId"
    by (simp add: chat_fields aw)
  show ?thesis
    by (simp add: processMessage_fresh [OF fresh] aw handleAwaitingReset_yes [OF a yes]
        chat_fields Let_def)
qed

lemma processMessage_reset_no:
  assumes aw: "awaitingResetConfirmation c = userId" and fresh: "unix now - t < 60"
    and no: "toUpperCase msgText \<noteq> ''YES''"
  shows "processMessage render now userId userName msgText t c =
     (Inr (respond (pluginHost c) (PreMesssage msgText) @
           respond (pluginHost c) (PostMessage (cleanText (utilOf c) msgText))),
      logEvent (PostMessage (cleanText (utilOf c) msgText))
        ((logEvent (PreMesssage msgText) c)\<lparr>awaitingResetConfirmation := - 1\<rparr>))"
proof -
  have a: "awaitingResetConfirmation (logEvent (PreMesssage msgText) c) = userId"
    by (simp add: chat_fields aw)
  show ?thesis
    by (simp add: processMessage_fresh [OF fresh] aw handleAwaitingReset_no [OF a no]
        chat_fields Let_def)
qed

lemma processMessage_idle:
  assumes aw: "awaitingResetConfirmation c \<noteq> userId" and idle: "\<not> running c"
    and fresh: "unix now - t < 60"
  shows "processMessage render now userId userName msgText t c =
     (Inr (respond (pluginHost c) (PreMesssage msgText) @
           respond (pluginHost c) (PostMessage (cleanText (utilOf c) msgText))),
      logEvent (PostMessage (cleanText (utilOf c) msgText)) (logEvent (PreMesssage msgText) c))"
  by (simp add: processMessage_fresh [OF fresh] aw idle chat_fields Let_def)

lemma processMessage_stale:
  "unix now - t \<ge> 60 \<Longrightarrow> processMessage render now userId userName msgText t c = (Inr [], c)"
  by (simp add: processMessage_def)

lemma processMessage_running:
  assumes aw: "awaitingResetConfirmation c \<noteq> userId" and run: "running c"
    and fresh: "unix now - t < 60"
  shows "processMessage render now userId userName msgText t c =
     (case handleDankTimeInputMessage userId userName msgText t now
             (logEvent (PreMesssage msgText) c) of
        (Inl e, c2) \<Rightarrow> (Inl e, c2)
      | (Inr out, c2) \<Rightarrow>
          (Inr (respond (pluginHost c) (PreMesssage msgText) @ out @
                respond (pluginHost c2) (PostMessage (cleanText (utilOf c2) msgText))),
           logEvent (PostMessage (cleanText (utilOf c2) msgText)) c2))"
  by (simp add: processMessage_fresh [OF fresh] aw run chat_fields Let_def case_prod_beta
      split: sum.splits)

lemma all_zero_3: "length xs = 3 \<Longrightarrow> \<forall>x\<in>set xs. x = (0::int) \<Longrightarrow> xs = [0, 0, 0]"
  by (auto simp: length_Suc_conv numeral_3_eq_3)

lemma handle_wrong_time:
  assumes matched: "getDankTimesByText c msgText \<noteq> []"
    and wrong: "find (\<lambda>d. hours now = hour d \<and> minutes now = minute d)
                  (getDankTimesByText c msgText) = None"
    and sender: "map_of (users (withSender userId userName c)) userId = Some u"
    and p: "p = Max (insert 0 (points ` set (getDankTimesByText c msgText)))"
    and ev: "ev = UserScoreChange (addToScore (- p) (unix now) u) (- p)"
  shows "handleDankTimeInputMessage userId userName msgText t now c =
     (Inr (respond (pluginHost c) ev),
      logEvent ev (updateUser userId (addToScore (- p) (unix now)) (withSender userId userName c)))"
  using punish_found [OF sender ev]
  by (simp add: handleDankTimeInputMessage_loop [OF matched] forDankTimes_none [OF wrong] p
      withSender_fields)

lemma minutes_set_minutes:
  assumes j: "0 \<le> j" "j < 60"
    and shift: "(zone m (unix (set_minutes j m)) - zone m (unix m)) mod 3600 = 0"
  shows "minutes (set_minutes j m) = j"
proof -
  define x where "x = localSeconds m div 60"
  define d where "d = x div 60"
  define r where "r = x mod 60"
  have x: "x = 60 * d + r" by (simp add: d_def r_def)
  from shift obtain k where k: "zone m (unix (set_minutes j m)) - zone m (unix m) = 3600 * k"
    by (auto elim: dvdE simp: dvd_eq_mod_eq_0 [symmetric])
  have "localSeconds (set_minutes j m) =
          localSeconds m + 60 * (j - r) +
          (zone m (unix (set_minutes j m)) - zone m (unix m))"
    by (simp add: set_minutes_def localSeconds_def minutes_def r_def x_def)
  also have "\<dots> = localSeconds m + 60 * (j - r + 60 * k)"
    by (simp add: k)
  finally have "localSeconds (set_minutes j m) div 60 = x + (j - r + 60 * k)"
    by (simp add: x_def)
  also have "\<dots> = j + 60 * (d + k)" using x by simp
  finally have "minutes (set_minutes j m) = (j + 60 * (d + k)) mod 60"
    by (simp only: minutes_def)
  also have "\<dots> = j mod 60" by (simp only: mod_mult_self2)
  finally show ?thesis using j by simp
qed

lemma drawMoment_minute:
  assumes "0 \<le> random2 dr" "random2 dr \<le> 1 - 1 / 2 ^ 53" and "offsetShift dr mod 3600 = 0"
  shows "minutes (drawMoment dr) = \<lfloor>timesDouble (random2 dr) 59\<rfloor>"
    and "minutes (drawMoment dr) \<le> 58"
proof -
  from floor_random_59 [OF assms(1,2)]
  have b: "0 \<le> \<lfloor>timesDouble (random2 dr) 59\<rfloor>" "\<lfloor>timesDouble (random2 dr) 59\<rfloor> < 60"
    "\<lfloor>timesDouble (random2 dr) 59\<rfloor> \<le> 58"
    by simp_all
  show "minutes (drawMoment dr) = \<lfloor>timesDouble (random2 dr) 59\<rfloor>"
    using assms(3) unfolding drawMoment_def offsetShift_def Let_def
    by (intro minutes_set_minutes [OF b(1,2)]) (simp add: set_minutes_def)
  with b(3) show "minutes (drawMoment dr) \<le> 58" by simp
qed

lemma randomStep_fields:
  "settings (randomStep dr c) = settings c"
  "dankTimes (randomStep dr c) = dankTimes c"
  by (simp_all add: randomStep_def Let_def)

lemma randomStep_frame: "(randomStep dr c)\<lparr>randomDankTimes := xs\<rparr> = c\<lparr>randomDankTimes := xs\<rparr>"
  by (simp add: randomStep_def Let_def)

lemma randomLoop_fold:
  "randomLoop env i c = fold (\<lambda>j. randomStep (env j)) [i..<numberOfRandomTimes c] c"
proof (induction env i c rule: randomLoop.induct)
  case (1 env i c)
  show ?case
  proof (cases "i < numberOfRandomTimes c")
    case True
    have n: "numberOfRandomTimes (randomStep (env i) c) = numberOfRandomTimes c"
      by (simp add: numberOfRandomTimes_def randomStep_fields)
    have "randomLoop env i c = randomLoop env (Suc i) (randomStep (env i) c)"
      using True by (subst randomLoop.simps) (simp only: if_True)
    also have "\<dots> = fold (\<lambda>j. randomStep (env j)) [Suc i..<numberOfRandomTimes c]
                       (randomStep (env i) c)"
      using 1 [OF True] by (simp only: n)
    also have "\<dots> = fold (\<lambda>j. randomStep (env j)) (i # [Suc i..<numberOfRandomTimes c]) c"
      by (simp only: fold_simps)
    also have "i # [Suc i..<numberOfRandomTimes c] = [i..<numberOfRandomTimes c]"
      using upt_conv_Cons [OF True] by (rule sym)
    finally show ?thesis .
  next
    case False
    have "randomLoop env i c = c"
      using False by (subst randomLoop.simps) (simp only: if_False)
    moreover have "[i..<numberOfRandomTimes c] = []" using False by simp
    ultimately show ?thesis by (simp only: fold_simps)
  qed
qed

lemma randomStep_cases:
  obtains (dropped) "hourAndMinuteAlreadyRegistered c (hours (drawMoment dr)) (minutes (drawMoment dr))"
      "randomStep dr c = c"
  | (added) "\<not> hourAndMinuteAlreadyRegistered c (hours (drawMoment dr)) (minutes (drawMoment dr))"
      "randomDankTimes (randomStep dr c) = randomDankTimes c @
         [\<lparr>hour = hours (drawMoment dr), minute = minutes (drawMoment dr),
           texts = [padNumber (hours (drawMoment dr)) @ padNumber (minutes (drawMoment dr))],
           points = pointsPerRandomTime c\<rparr>]"
  by (cases "hourAndMinuteAlreadyRegistered c (hours (drawMoment dr)) (minutes (drawMoment dr))")
     (simp_all add: randomStep_def Let_def)

lemma fold_randomStep_inv:
  fixes env :: "nat \<Rightarrow> draw" and c0 :: chat
  defines "slot \<equiv> \<lambda>i. \<lparr>hour = hours (drawMoment (env i)), minute = minutes (drawMoment (env i)),
           texts = [padNumber (hours (drawMoment (env i))) @ padNumber (minutes (drawMoment (env i)))],
           points = pointsPerRandomTime c0\<rparr>"
  assumes empty: "randomDankTimes c0 = []"
  shows "settings (fold (\<lambda>j. randomStep (env j)) [0..<n] c0) = settings c0 \<and>
     dankTimes (fold (\<lambda>j. randomStep (env j)) [0..<n] c0) = dankTimes c0 \<and>
     (fold (\<lambda>j. randomStep (env j)) [0..<n] c0)\<lparr>randomDankTimes := xs\<rparr> = c0\<lparr>randomDankTimes := xs\<rparr> \<and>
     length (randomDankTimes (fold (\<lambda>j. randomStep (env j)) [0..<n] c0)) \<le> n \<and>
     distinct (map (\<lambda>d. (hour d, minute d))
       (randomDankTimes (fold (\<lambda>j. randomStep (env j)) [0..<n] c0))) \<and>
     (\<forall>d\<in>set (randomDankTimes (fold (\<lambda>j. randomStep (env j)) [0..<n] c0)).
        (\<exists>i<n. d = slot i) \<and>
        \<not> list_ex (\<lambda>d'. hour d' = hour d \<and> minute d' = minute d) (dankTimes c0))"
proof (induction n)
  case 0
  then show ?case by (simp add: empty)
next
  case (Suc n)
  let ?c1 = "fold (\<lambda>j. randomStep (env j)) [0..<n] c0"
  let ?c2 = "randomStep (env n) ?c1"
  from Suc.IH have s1: "settings ?c1 = settings c0" and d1: "dankTimes ?c1 = dankTimes c0"
    and f1: "?c1\<lparr>randomDankTimes := xs\<rparr> = c0\<lparr>randomDankTimes := xs\<rparr>"
    and l1: "length (randomDankTimes ?c1) \<le> n"
    and di1: "distinct (map (\<lambda>d. (hour d, minute d)) (randomDankTimes ?c1))"
    and g1: "\<forall>d\<in>set (randomDankTimes ?c1). (\<exists>i<n. d = slot i) \<and>
        \<not> list_ex (\<lambda>d'. hour d' = hour d \<and> minute d' = minute d) (dankTimes c0)"
    by simp_all
  have s2: "settings ?c2 = settings c0" and d2: "dankTimes ?c2 = dankTimes c0"
    and f2: "?c2\<lparr>randomDankTimes := xs\<rparr> = c0\<lparr>randomDankTimes := xs\<rparr>"
    by (simp_all add: randomStep_fields s1 d1 randomStep_frame f1)
  have rest: "length (randomDankTimes ?c2) \<le> Suc n \<and>
     distinct (map (\<lambda>d. (hour d, minute d)) (randomDankTimes ?c2)) \<and>
     (\<forall>d\<in>set (randomDankTimes ?c2). (\<exists>i<Suc n. d = slot i) \<and>
        \<not> list_ex (\<lambda>d'. hour d' = hour d \<and> minute d' = minute d) (dankTimes c0))"
  proof (cases rule: randomStep_cases [of ?c1 "env n"])
    case dropped
    then have "?c2 = ?c1" by simp
    then show ?thesis using l1 di1 g1 less_Suc_eq by auto
  next
    case added
    have p: "pointsPerRandomTime ?c1 = pointsPerRandomTime c0"
      by (simp add: pointsPerRandomTime_def s1)
    have r2: "randomDankTimes ?c2 = randomDankTimes ?c1 @ [slot n]"
      unfolding added(2) by (simp add: slot_def p)
    from added(1) have fresh:
      "\<not> list_ex (\<lambda>d'. hour d' = hour (slot n) \<and> minute d' = minute (slot n)) (dankTimes c0)"
      "\<not> list_ex (\<lambda>d'. hour d' = hour (slot n) \<and> minute d' = minute (slot n)) (randomDankTimes ?c1)"
      by (simp_all add: hourAndMinuteAlreadyRegistered_def d1 slot_def)
    from fresh(2) have "(hour (slot n), minute (slot n)) \<notin>
        set (map (\<lambda>d. (hour d, minute d)) (randomDankTimes ?c1))"
      by (auto simp: list_ex_iff)
    then have "distinct (map (\<lambda>d. (hour d, minute d)) (randomDankTimes ?c2))"
      using di1 by (simp add: r2)
    moreover have "length (randomDankTimes ?c2) \<le> Suc n" using l1 by (simp add: r2)
    moreover have "\<forall>d\<in>set (randomDankTimes ?c2). (\<exists>i<Suc n. d = slot i) \<and>
        \<not> list_ex (\<lambda>d'. hour d' = hour d \<and> minute d' = minute d) (dankTimes c0)"
      using g1 fresh(1) less_Suc_eq by (auto simp: r2)
    ultimately show ?thesis by simp
  qed
  show ?case using s2 d2 f2 rest by simp
qed

lemma generateRandomDankTimes_fold:
  "generateRandomDankTimes env c =
     (randomDankTimes (fold (\<lambda>i. randomStep (env i)) [0..<numberOfRandomTimes c]
                         (c\<lparr>randomDankTimes := []\<rparr>)),
      fold (\<lambda>i. randomStep (env i)) [0..<numberOfRandomTimes c] (c\<lparr>randomDankTimes := []\<rparr>))"
  by (simp add: generateRandomDankTimes_def Let_def randomLoop_fold numberOfRandomTimes_def)

lemma drawMoment_late: "hours (drawMoment (lateDraws i)) = 23" "minutes (drawMoment (lateDraws i)) = 29"
  by (simp_all add: drawMoment_def lateDraws_def oneOClock_def draws_floor Let_def add_hours_def
      set_minutes_def hours_def minutes_def localSeconds_def utc_def)

lemma drawMoment_early: "hours (drawMoment (earlyDraws i)) = 3" "minutes (drawMoment (earlyDraws i)) = 45"
  "offsetShift (earlyDraws i) = 0"
  by (simp_all add: drawMoment_def offsetShift_def earlyDraws_def oneOClock_def draws_floor Let_def
      add_hours_def set_minutes_def hours_def minutes_def localSeconds_def utc_def)

lemma drawMoment_spring: "hours (nowAt (springDraws i)) = 23" "minutes (nowAt (springDraws i)) = 30"
  "hours (drawMoment (springDraws i)) = 5" "minutes (drawMoment (springDraws i)) = 45"
  "offsetShift (springDraws i) = 0"
  by (simp_all add: drawMoment_def offsetShift_def springDraws_def draws_floor Let_def
      add_hours_def set_minutes_def hours_def minutes_def localSeconds_def amsterdam_def)

lemma drawMoment_howe: "hours (nowAt (howeDraws i)) = 2" "minutes (nowAt (howeDraws i)) = 45"
  "hours (drawMoment (howeDraws i)) = 1" "minutes (drawMoment (howeDraws i)) = 59"
  "offsetShift (howeDraws i) = - 1800"
  by (simp_all add: drawMoment_def offsetShift_def howeDraws_def draws_floor Let_def
      add_hours_def set_minutes_def hours_def minutes_def localSeconds_def lordHowe_def)

lemma padNumber_examples:
  "padNumber 3 = ''03''" "padNumber 45 = ''45''" "padNumber 23 = ''23''" "padNumber 29 = ''29''"
  "padNumber 5 = ''05''" "padNumber 1 = ''01''" "padNumber 59 = ''59''"
  by (simp_all add: padNumber_def toString_def decimal.simps digit_def)

lemma baconChat_slots:
  "numberOfRandomTimes baconChat = 3" "pointsPerRandomTime (baconChat\<lparr>randomDankTimes := xs\<rparr>) = 10"
  "dankTimes baconChat = [\<lparr>hour = 10, minute = 0, texts = [''bacon''], points = 10\<rparr>]"
  by (simp_all add: numberOfRandomTimes_def pointsPerRandomTime_def baconChat_def baconSettings_def)

lemma zoned_slots:
  "numberOfRandomTimes amsterdamChat = 3"
  "pointsPerRandomTime (amsterdamChat\<lparr>randomDankTimes := xs\<rparr>) = 10"
  "dankTimes amsterdamChat = [\<lparr>hour = 10, minute = 0, texts = [''bacon''], points = 10\<rparr>]"
  "numberOfRandomTimes howeChat = 3"
  "pointsPerRandomTime (howeChat\<lparr>randomDankTimes := xs\<rparr>) = 10"
  "dankTimes howeChat = [\<lparr>hour = 10, minute = 0, texts = [''bacon''], points = 10\<rparr>]"
  by (simp_all add: numberOfRandomTimes_def pointsPerRandomTime_def amsterdamChat_def howeChat_def
      baconChat_def baconSettings_def)

lemma three: "[0..<3] = [0, Suc 0, 2]"
  by (simp add: upt_rec numeral_3_eq_3)

subsection \<open>Claims\<close>

text \<open>
  Claim C6. A message whose timestamp lies 60 seconds or more before the clock of the
  chat is ignored: \<^verbatim>\<open>processMessage\<close> returns the empty sequence and the chat it was
  given, so no user is created or changed, no score changes, \<^verbatim>\<open>awaitingResetConfirmation\<close>,
  \<^verbatim>\<open>lastHour\<close> and \<^verbatim>\<open>lastMinute\<close> keep their values and the plugin host has recorded
  no event.
\<close>
theorem C6_stale_message_ignored:
  "unix now - msgUnixTime \<ge> 60 \<Longrightarrow>
   processMessage render now userId userName msgText msgUnixTime c = (Inr [], c)"
  by (simp add: processMessage_def)

theorem C6_stale_message_ignored_witness:
  "processMessage blankRender tenOClock 1 ''A'' ''bacon'' 35940 baconChat = (Inr [], baconChat)"
  using C6_stale_message_ignored [of tenOClock 35940 blankRender 1 "''A''" "''bacon''" baconChat]
  by (simp add: tenOClock_def)

text \<open>
  Claim C8. \<^verbatim>\<open>leaderboardChanged\<close> is true exactly when some user has a nonzero
  \<^verbatim>\<open>lastScoreChange\<close>. Generating a leaderboard, final or not, stores the snapshot of the
  users and sets the \<^verbatim>\<open>lastScoreChange\<close> of every user to 0, the users, their keys and
  their order being otherwise as they were, and changes nothing else of the chat; so
  after \<^verbatim>\<open>generateLeaderboard(false)\<close> \<^verbatim>\<open>leaderboardChanged\<close> is false.
\<close>
theorem C8_leaderboardChanged:
  "(leaderboardChanged c \<longleftrightarrow> (\<exists>e\<in>set (users c). lastScoreChange (snd e) \<noteq> 0)) \<and>
   snd (generateLeaderboard render final c) =
     c\<lparr>myLastLeaderboard := Some (map snd (users c)),
       users := map (\<lambda>(k, u). (k, u\<lparr>lastScoreChange := 0\<rparr>)) (users c)\<rparr> \<and>
   \<not> leaderboardChanged (snd (generateLeaderboard render False c))"
proof -
  have 1: "leaderboardChanged c \<longleftrightarrow> (\<exists>e\<in>set (users c). lastScoreChange (snd e) \<noteq> 0)"
    by (simp add: leaderboardChanged_def anyChanged_iff)
  have 2: "snd (generateLeaderboard render final c) =
     c\<lparr>myLastLeaderboard := Some (map snd (users c)),
       users := map (\<lambda>(k, u). (k, u\<lparr>lastScoreChange := 0\<rparr>)) (users c)\<rparr>"
    by (simp add: generateLeaderboard_def forEachUser_def Let_def resetLastScoreChange_def)
  have 3: "\<not> leaderboardChanged (snd (generateLeaderboard render False c))"
    by (auto simp: leaderboardChanged_def anyChanged_iff users_generateLeaderboard
        resetLastScoreChange_def)
  show ?thesis using 1 2 3 by simp
qed

theorem C8_leaderboardChanged_witness:
  "leaderboardChanged (baconChat\<lparr>users := threePlayers\<rparr>) \<and>
   users (snd (generateLeaderboard blankRender False (baconChat\<lparr>users := threePlayers\<rparr>))) =
     [(1, player 1 ''A'' 250 0 0 False), (2, player 2 ''B'' 30 0 0 False),
      (3, player 3 ''C'' 70 0 50000 False)] \<and>
   \<not> leaderboardChanged (snd (generateLeaderboard blankRender False (baconChat\<lparr>users := threePlayers\<rparr>))) \<and>
   \<not> leaderboardChanged baconChat"
proof -
  note t = C8_leaderboardChanged [of "baconChat\<lparr>users := threePlayers\<rparr>" blankRender False]
  have a: "leaderboardChanged (baconChat\<lparr>users := threePlayers\<rparr>)"
    using t by (simp add: threePlayers_def player_def)
  have b: "users (snd (generateLeaderboard blankRender False (baconChat\<lparr>users := threePlayers\<rparr>))) =
     [(1, player 1 ''A'' 250 0 0 False), (2, player 2 ''B'' 30 0 0 False),
      (3, player 3 ''C'' 70 0 50000 False)]"
    using t by (simp add: threePlayers_def player_def)
  have c: "\<not> leaderboardChanged (snd (generateLeaderboard blankRender False (baconChat\<lparr>users := threePlayers\<rparr>)))"
    using t by blast
  have d: "\<not> leaderboardChanged baconChat"
    using C8_leaderboardChanged [of baconChat] by (simp add: baconChat_def)
  show ?thesis using a b c d by blast
qed

text \<open>
  Claim C10. The id setter accepts every whole number, zero and the negative ones
  included, and stores it; for any other number (a fraction, NaN, an infinity) it throws
  a RangeError and leaves the chat as it was. The constructor runs the setter on its
  \<open>id\<close> argument and throws with it.
\<close>
theorem C10_set_id:
  "((\<exists>k::int. i = Finite (of_int k)) \<longrightarrow> set_id i c = (None, c\<lparr>myId := i\<rparr>)) \<and>
   (\<not> (\<exists>k::int. i = Finite (of_int k)) \<longrightarrow>
      set_id i c = (Some RangeError, c) \<and>
      new_Chat u i ph run lastHour lastMinute us dts rdts sts = Inl RangeError)"
  using strict_rem1_iff [of i] new_Chat_bad_id [of i u ph run lastHour lastMinute us dts rdts sts]
  by (simp add: set_id_def)

theorem C10_set_id_witness:
  "set_id (Finite (- 1001234)) baconChat = (None, baconChat\<lparr>myId := Finite (- 1001234)\<rparr>) \<and>
   set_id (Finite 0) baconChat = (None, baconChat\<lparr>myId := Finite 0\<rparr>) \<and>
   set_id (Finite (5 / 2)) baconChat = (Some RangeError, baconChat) \<and>
   set_id NaN baconChat = (Some RangeError, baconChat)"
proof -
  have i1: "\<exists>k::int. Finite (- 1001234) = Finite (of_int k)"
    by (rule exI [of _ "- 1001234"]) simp
  have i2: "\<exists>k::int. Finite 0 = Finite (of_int k)"
    by (rule exI [of _ 0]) simp
  have i4: "\<not> (\<exists>k::int. NaN = Finite (of_int k))" by simp
  have a: "set_id (Finite (- 1001234)) baconChat = (None, baconChat\<lparr>myId := Finite (- 1001234)\<rparr>)"
    using C10_set_id [of "Finite (- 1001234)" baconChat] i1 by blast
  have b: "set_id (Finite 0) baconChat = (None, baconChat\<lparr>myId := Finite 0\<rparr>)"
    using C10_set_id [of "Finite 0" baconChat] i2 by blast
  have c: "set_id (Finite (5 / 2)) baconChat = (Some RangeError, baconChat)"
    using C10_set_id [of "Finite (5 / 2)" baconChat] five_halves by blast
  have d: "set_id NaN baconChat = (Some RangeError, baconChat)"
    using C10_set_id [of NaN baconChat] i4 by blast
  show ?thesis using a b c d by simp
qed

text \<open>
  Claim C7 fails on the code where it has the setting be false. \<^verbatim>\<open>hardcoreModeCheck\<close>
  tests the getter \<^verbatim>\<open>hardcoreMode\<close>, which is \<^verbatim>\<open>Boolean(this.settings.get(...))\<close>; the
  entry of the settings map is an object, so the getter is true in every chat in which
  hardcore mode is registered, with the value false as with the value true. In the chat
  below the setting has the value false. The check at timestamp 100000 takes 25 points
  from user 1 and 10 points from user 2, whose last scores are 100000 seconds old, and
  sets their timestamps; user 3, whose last score is 50000 seconds old, is left alone.
\<close>
theorem C7_hardcoreMode_value_ignored:
  "hardcoreMode_setting (settings lazyChat) = Some False \<and>
   users lazyChat =
     [(1, player 1 ''A'' 250 0 0 False), (2, player 2 ''B'' 30 5 0 False),
      (3, player 3 ''C'' 70 0 50000 False)] \<and>
   users (hardcoreModeCheck 100000 lazyChat) =
     [(1, player 1 ''A'' 225 (- 25) 100000 False), (2, player 2 ''B'' 20 (- 5) 100000 False),
      (3, player 3 ''C'' 70 0 50000 False)]"
proof -
  have s: "hardcoreMode_setting (settings lazyChat) = Some False"
    by (simp add: lazyChat_def baconSettings_def)
  have u: "users lazyChat =
     [(1, player 1 ''A'' 250 0 0 False), (2, player 2 ''B'' 30 5 0 False),
      (3, player 3 ''C'' 70 0 50000 False)]"
    by (simp add: lazyChat_def threePlayers_def)
  have "users (hardcoreModeCheck 100000 lazyChat) =
     [(1, player 1 ''A'' 225 (- 25) 100000 False), (2, player 2 ''B'' 20 (- 5) 100000 False),
      (3, player 3 ''C'' 70 0 50000 False)]"
    unfolding hardcoreModeCheck_registered [OF s]
    by (simp add: forEachUser_def u player_def punishUser_def addToScore_def punishByPoints_def
        tenth_of_250 tenth_of_30)
  with s u show ?thesis by simp
qed



text \<open>
  Claim C2. A message that is not stale, from the user whose confirmation of a reset is
  awaited: afterwards \<^verbatim>\<open>awaitingResetConfirmation\<close> is \<open>-1\<close> whatever the text is. If
  the upper case of the text is "YES" (the text is "yes" in any mix of upper and lower
  case, the long s of U+017F counting as an s), every user's score is 0, the
  output holds, between the outputs of the pre-message and the post-message extension
  points, the leaderboard headed FINAL LEADERBOARD followed by the output of the
  leaderboard-reset extension point, and that extension point was triggered. For any
  other text the users are unchanged, nothing is output besides the pre-message and
  post-message outputs and the leaderboard-reset extension point is not triggered.
\<close>
theorem C2_reset_confirmation:
  assumes aw: "awaitingResetConfirmation c = userId" and fresh: "unix now - msgUnixTime < 60"
    and res: "processMessage render now userId userName msgText msgUnixTime c = (res, c')"
  shows "awaitingResetConfirmation c' = - 1 \<and>
    (toUpperCase msgText = ''YES'' \<longrightarrow>
       (\<forall>e\<in>set (users c'). score (snd e) = 0) \<and>
       map fst (users c') = map fst (users c) \<and>
       res = Inr (respond (pluginHost c) (PreMesssage msgText) @
                  [''Leaderboard has been reset!'' @ [CHR 0x0A, CHR 0x0A] @
                   ''<b>'' @ trophy @ '' FINAL LEADERBOARD</b>'' @ [CHR 0x0A] @
                   render (map snd (users c)) (myLastLeaderboard c)] @
                  respond (pluginHost c) LeaderboardReset @
                  respond (pluginHost c) (PostMessage (cleanText (utilOf c) msgText))) \<and>
       fired (pluginHost c') = fired (pluginHost c) @
         [PreMesssage msgText, LeaderboardReset, PostMessage (cleanText (utilOf c) msgText)]) \<and>
    (toUpperCase msgText \<noteq> ''YES'' \<longrightarrow>
       users c' = users c \<and>
       res = Inr (respond (pluginHost c) (PreMesssage msgText) @
                  respond (pluginHost c) (PostMessage (cleanText (utilOf c) msgText))) \<and>
       fired (pluginHost c') = fired (pluginHost c) @
         [PreMesssage msgText, PostMessage (cleanText (utilOf c) msgText)])"
proof (cases "toUpperCase msgText = ''YES''")
  case True
  from processMessage_reset_yes [OF aw fresh True, of render userName] res
  have r: "res = Inr (respond (pluginHost c) (PreMesssage msgText) @
           [''Leaderboard has been reset!'' @ [CHR 0x0A, CHR 0x0A] @ leaderboardHeader True @
              render (map snd (users c)) (myLastLeaderboard c)] @
           respond (pluginHost c) LeaderboardReset @
           respond (pluginHost c) (PostMessage (cleanText (utilOf c) msgText)))"
    and c': "c' = logEvent (PostMessage (cleanText (utilOf c) msgText))
        (logEvent LeaderboardReset
          (forEachUser resetScore
            (forEachUser resetLastScoreChange
               ((logEvent (PreMesssage msgText) c)\<lparr>awaitingResetConfirmation := - 1,
                  myLastLeaderboard := Some (map snd (users c))\<rparr>))))"
    by simp_all
  have 1: "awaitingResetConfirmation c' = - 1" by (simp add: c' chat_fields)
  have 2: "\<forall>e\<in>set (users c'). score (snd e) = 0"
    by (auto simp: c' chat_fields forEachUser_def resetScore_def)
  have 3: "map fst (users c') = map fst (users c)"
    by (simp add: c' chat_fields forEachUser_def case_prod_beta comp_def)
  have 4: "fired (pluginHost c') = fired (pluginHost c) @
         [PreMesssage msgText, LeaderboardReset, PostMessage (cleanText (utilOf c) msgText)]"
    by (simp add: c' chat_fields)
  show ?thesis using True 1 2 3 4 r by (simp add: leaderboardHeader_def)
next
  case False
  from processMessage_reset_no [OF aw fresh False, of render userName] res
  have r: "res = Inr (respond (pluginHost c) (PreMesssage msgText) @
           respond (pluginHost c) (PostMessage (cleanText (utilOf c) msgText)))"
    and c': "c' = logEvent (PostMessage (cleanText (utilOf c) msgText))
        ((logEvent (PreMesssage msgText) c)\<lparr>awaitingResetConfirmation := - 1\<rparr>)"
    by simp_all
  show ?thesis using False r by (simp add: c' chat_fields)
qed

theorem C2_reset_confirmation_witness:
  "awaitingResetConfirmation (snd (processMessage blankRender tenOClock 2 ''B'' ''yEs'' 36000 resetChat)) = - 1 \<and>
   map score (map snd (users (snd (processMessage blankRender tenOClock 2 ''B'' ''yEs'' 36000 resetChat)))) = [0, 0, 0] \<and>
   fst (processMessage blankRender tenOClock 2 ''B'' ''yEs'' 36000 resetChat) =
     Inr [''Leaderboard has been reset!'' @ [CHR 0x0A, CHR 0x0A] @
          ''<b>'' @ trophy @ '' FINAL LEADERBOARD</b>'' @ [CHR 0x0A], ''scores are gone''] \<and>
   map score (map snd (users (snd (processMessage blankRender tenOClock 2 ''B''
       [CHR ''y'', CHR ''e'', CHR 0xC5, CHR 0xBF] 36000 resetChat)))) = [0, 0, 0] \<and>
   awaitingResetConfirmation (snd (processMessage blankRender tenOClock 2 ''B'' ''no'' 36000 resetChat)) = - 1 \<and>
   users (snd (processMessage blankRender tenOClock 2 ''B'' ''no'' 36000 resetChat)) = threePlayers"
proof -
  have aw: "awaitingResetConfirmation resetChat = 2" by (simp add: resetChat_def)
  have fresh: "unix tenOClock - 36000 < 60" by (simp add: tenOClock_def)
  have y: "toUpperCase ''yEs'' = ''YES''" "toUpperCase [CHR ''y'', CHR ''e'', CHR 0xC5, CHR 0xBF] = ''YES''"
    and n: "toUpperCase ''no'' \<noteq> ''YES''"
    by (simp_all add: upperChar_def)
  have u: "users resetChat = threePlayers"
    "respond (pluginHost resetChat) = (\<lambda>ev. case ev of LeaderboardReset \<Rightarrow> [''scores are gone''] | _ \<Rightarrow> [])"
    by (simp_all add: resetChat_def baconChat_def echoHost_def)
  have sc: "map score (map snd (users (snd (processMessage blankRender tenOClock 2 ''B'' t 36000 resetChat)))) = [0, 0, 0]"
    if t: "toUpperCase t = ''YES''" for t
  proof -
    let ?us = "users (snd (processMessage blankRender tenOClock 2 ''B'' t 36000 resetChat))"
    have r: "map fst ?us = map fst threePlayers \<and> (\<forall>e\<in>set ?us. score (snd e) = 0)"
      using C2_reset_confirmation [OF aw fresh surjective_pairing, of blankRender "''B''" t] t u(1)
      by simp
    then have "length ?us = 3"
      by (metis length_map threePlayers_def length_Cons list.size(3) numeral_3_eq_3)
    with r show ?thesis by (intro all_zero_3) auto
  qed
  show ?thesis
    using C2_reset_confirmation [OF aw fresh surjective_pairing, of blankRender "''B''" "''yEs''"]
      C2_reset_confirmation [OF aw fresh surjective_pairing, of blankRender "''B''" "''no''"]
      y n sc [OF y(1)] sc [OF y(2)]
    by (simp add: u blankRender_def)
qed

text \<open>
  Claim C3, amended. In a chat that is not running, \<^verbatim>\<open>processMessage\<close> leaves the users,
  and so every score, unchanged, unless the message is not stale, the chat awaits the
  sender's confirmation of a reset and the upper case of the text is "YES": then every
  score is 0 afterwards. The reset confirmation is tested before \<^verbatim>\<open>running\<close> is.
\<close>
theorem C3_idle_chat_scores:
  assumes idle: "\<not> running c"
    and res: "processMessage render now userId userName msgText msgUnixTime c = (res, c')"
  shows
    "(\<not> (unix now - msgUnixTime < 60 \<and> awaitingResetConfirmation c = userId \<and>
         toUpperCase msgText = ''YES'') \<longrightarrow> users c' = users c) \<and>
     (unix now - msgUnixTime < 60 \<and> awaitingResetConfirmation c = userId \<and>
         toUpperCase msgText = ''YES'' \<longrightarrow>
        map fst (users c') = map fst (users c) \<and> (\<forall>e\<in>set (users c'). score (snd e) = 0))"
proof (cases "unix now - msgUnixTime < 60")
  case False
  then have "unix now - msgUnixTime \<ge> 60" by simp
  from processMessage_stale [OF this, of render userId userName msgText c] res False
  show ?thesis by simp
next
  case fresh: True
  show ?thesis
  proof (cases "awaitingResetConfirmation c = userId")
    case False
    from processMessage_idle [OF False idle fresh, of render userName msgText] res
    have "c' = logEvent (PostMessage (cleanText (utilOf c) msgText))
                 (logEvent (PreMesssage msgText) c)"
      by simp
    then show ?thesis using False by (simp add: chat_fields)
  next
    case aw: True
    show ?thesis
    proof (cases "toUpperCase msgText = ''YES''")
      case False
      from processMessage_reset_no [OF aw fresh False, of render userName] res
      have "c' = logEvent (PostMessage (cleanText (utilOf c) msgText))
                   ((logEvent (PreMesssage msgText) c)\<lparr>awaitingResetConfirmation := - 1\<rparr>)"
        by simp
      then show ?thesis using False by (simp add: chat_fields)
    next
      case True
      from processMessage_reset_yes [OF aw fresh True, of render userName] res
      have c': "c' = logEvent (PostMessage (cleanText (utilOf c) msgText))
        (logEvent LeaderboardReset
          (forEachUser resetScore
            (forEachUser resetLastScoreChange
               ((logEvent (PreMesssage msgText) c)\<lparr>awaitingResetConfirmation := - 1,
                  myLastLeaderboard := Some (map snd (users c))\<rparr>))))"
        by simp
      have 1: "\<forall>e\<in>set (users c'). score (snd e) = 0"
        by (auto simp: c' chat_fields forEachUser_def resetScore_def)
      have 2: "map fst (users c') = map fst (users c)"
        by (simp add: c' chat_fields forEachUser_def case_prod_beta comp_def)
      show ?thesis using True aw fresh 1 2 by simp
    qed
  qed
qed

theorem C3_idle_chat_scores_witness:
  "users (snd (processMessage blankRender tenOClock 1 ''A'' ''yes'' 36000 resetChat)) = threePlayers \<and>
   users (snd (processMessage blankRender tenOClock 2 ''B'' ''bacon'' 36000 resetChat)) = threePlayers \<and>
   map score (map snd (users (snd (processMessage blankRender tenOClock 2 ''B'' ''yes'' 36000 resetChat)))) =
     [0, 0, 0]"
proof -
  have idle: "\<not> running resetChat" and aw: "awaitingResetConfirmation resetChat = 2"
    and u: "users resetChat = threePlayers"
    by (simp_all add: resetChat_def)
  have fresh: "unix tenOClock - 36000 < 60" by (simp add: tenOClock_def)
  have y: "toUpperCase ''yes'' = ''YES''" and n: "toUpperCase ''bacon'' \<noteq> ''YES''"
    by (simp_all add: upperChar_def)
  let ?us = "users (snd (processMessage blankRender tenOClock 2 ''B'' ''yes'' 36000 resetChat))"
  have reset: "map fst ?us = map fst threePlayers \<and> (\<forall>e\<in>set ?us. score (snd e) = 0)"
    using C3_idle_chat_scores [where render = blankRender and now = tenOClock and userId = 2 and userName = "''B''"
        and msgText = "''yes''" and msgUnixTime = 36000, OF idle surjective_pairing]
      aw fresh y u
    by simp
  then have "length ?us = 3"
    by (metis length_map threePlayers_def length_Cons list.size(3) numeral_3_eq_3)
  with reset have "map score (map snd ?us) = [0, 0, 0]"
    by (intro all_zero_3) auto
  then show ?thesis
    using C3_idle_chat_scores [where render = blankRender and now = tenOClock and userId = 1 and userName = "''A''"
        and msgText = "''yes''" and msgUnixTime = 36000, OF idle surjective_pairing]
      C3_idle_chat_scores [where render = blankRender and now = tenOClock and userId = 2 and userName = "''B''"
        and msgText = "''bacon''" and msgUnixTime = 36000, OF idle surjective_pairing]
      aw fresh y n u
    by simp
qed

text \<open>
  Claim C3 as stated fails: the chat below is not running, user 2 is awaited and answers
  "yes"; the scores 250, 30 and 70 all become 0.
\<close>
theorem C3_counterexample:
  "\<not> running resetChat \<and>
   map score (map snd (users resetChat)) = [250, 30, 70] \<and>
   map score (map snd (users (snd (processMessage blankRender tenOClock 2 ''B'' ''yes'' 36000 resetChat)))) =
     [0, 0, 0]"
proof -
  have aw: "awaitingResetConfirmation resetChat = 2" by (simp add: resetChat_def)
  have fresh: "unix tenOClock - 36000 < 60" by (simp add: tenOClock_def)
  have y: "toUpperCase ''yes'' = ''YES''"
    by (simp add: upperChar_def)
  show ?thesis
    by (simp add: processMessage_reset_yes [OF aw fresh y] chat_fields)
       (simp add: resetChat_def forEachUser_def logEvent_def threePlayers_def player_def
         resetScore_def resetLastScoreChange_def)
qed

text \<open>
  Claim C9. When \<^verbatim>\<open>awaitingResetConfirmation\<close> is not the sender's id (the sentinel -1
  included), \<^verbatim>\<open>processMessage\<close> leaves \<^verbatim>\<open>awaitingResetConfirmation\<close> and the stored
  leaderboard snapshot as they are and triggers no leaderboard-reset event (the number of
  such events the plugin host has seen stays the same), so no reset takes place and the
  window stays open; in a chat that is not running the users are unchanged;
  in a running chat a message that is not stale is handled by the dank-time handler
  between the pre-message and post-message events, whatever its text, "YES" included.
\<close>
theorem C9_other_user_keeps_window:
  assumes other: "awaitingResetConfirmation c \<noteq> userId"
    and res: "processMessage render now userId userName msgText msgUnixTime c = (res, c')"
  shows
    "awaitingResetConfirmation c' = awaitingResetConfirmation c \<and>
     myLastLeaderboard c' = myLastLeaderboard c \<and>
     count_list (fired (pluginHost c')) LeaderboardReset =
       count_list (fired (pluginHost c)) LeaderboardReset \<and>
     (\<not> running c \<longrightarrow> users c' = users c) \<and>
     (running c \<and> unix now - msgUnixTime < 60 \<longrightarrow>
        (res, c') =
          (case handleDankTimeInputMessage userId userName msgText msgUnixTime now
                  (logEvent (PreMesssage msgText) c) of
             (Inl e, c2) \<Rightarrow> (Inl e, c2)
           | (Inr out, c2) \<Rightarrow>
               (Inr (respond (pluginHost c) (PreMesssage msgText) @ out @
                     respond (pluginHost c2) (PostMessage (cleanText (utilOf c2) msgText))),
                logEvent (PostMessage (cleanText (utilOf c2) msgText)) c2)))"
proof (cases "unix now - msgUnixTime < 60")
  case False
  then have "unix now - msgUnixTime \<ge> 60" by simp
  from processMessage_stale [OF this, of render userId userName msgText c] res False
  show ?thesis by simp
next
  case fresh: True
  show ?thesis
  proof (cases "running c")
    case False
    from processMessage_idle [OF other False fresh, of render userName msgText] res
    have "c' = logEvent (PostMessage (cleanText (utilOf c) msgText))
                 (logEvent (PreMesssage msgText) c)"
      by simp
    then show ?thesis using False by (simp add: chat_fields)
  next
    case True
    let ?h = "handleDankTimeInputMessage userId userName msgText msgUnixTime now
                (logEvent (PreMesssage msgText) c)"
    have eq: "(res, c') =
          (case ?h of
             (Inl e, c2) \<Rightarrow> (Inl e, c2)
           | (Inr out, c2) \<Rightarrow>
               (Inr (respond (pluginHost c) (PreMesssage msgText) @ out @
                     respond (pluginHost c2) (PostMessage (cleanText (utilOf c2) msgText))),
                logEvent (PostMessage (cleanText (utilOf c2) msgText)) c2))"
      using processMessage_running [OF other True fresh, of render userName msgText] res
      by simp
    have fr: "awaitingResetConfirmation (snd ?h) = awaitingResetConfirmation c"
      "myLastLeaderboard (snd ?h) = myLastLeaderboard c"
      "count_list (fired (pluginHost (snd ?h))) LeaderboardReset =
         count_list (fired (pluginHost c)) LeaderboardReset"
      using frame_handleDankTimeInputMessage
        [of userId userName msgText msgUnixTime now "logEvent (PreMesssage msgText) c"]
      by (simp_all add: chat_fields)
    have "awaitingResetConfirmation c' = awaitingResetConfirmation c \<and>
          myLastLeaderboard c' = myLastLeaderboard c \<and>
          count_list (fired (pluginHost c')) LeaderboardReset =
            count_list (fired (pluginHost c)) LeaderboardReset"
      using eq fr by (cases ?h; cases "fst ?h") (auto simp: chat_fields)
    then show ?thesis using True eq by simp
  qed
qed

theorem C9_other_user_keeps_window_witness:
  "awaitingResetConfirmation (snd (processMessage blankRender tenOClock 1 ''A'' ''YES'' 36000 pendingChat)) = 2 \<and>
   users (snd (processMessage blankRender tenOClock 1 ''A'' ''YES'' 36000 pendingChat)) = threePlayers \<and>
   awaitingResetConfirmation (snd (processMessage blankRender tenOClock 1 ''A'' ''YES'' 36000 resetChat)) = 2 \<and>
   users (snd (processMessage blankRender tenOClock 1 ''A'' ''YES'' 36000 resetChat)) = threePlayers"
proof -
  have p: "awaitingResetConfirmation pendingChat \<noteq> 1" "running pendingChat"
    "awaitingResetConfirmation pendingChat = 2" "users pendingChat = threePlayers"
    by (simp_all add: pendingChat_def baconChat_def)
  have r: "awaitingResetConfirmation resetChat \<noteq> 1" "\<not> running resetChat"
    "awaitingResetConfirmation resetChat = 2" "users resetChat = threePlayers"
    by (simp_all add: resetChat_def baconChat_def)
  have fresh: "unix tenOClock - 36000 < 60" by (simp add: tenOClock_def)
  have none: "getDankTimesByText (logEvent (PreMesssage ''YES'') pendingChat) ''YES'' = []"
    by (simp add: getDankTimesByText_def chat_fields pendingChat_def baconChat_def hasText_def)
  show ?thesis
    using C9_other_user_keeps_window [where render = blankRender and now = tenOClock and userName = "''A''"
        and msgText = "''YES''" and msgUnixTime = 36000, OF p(1) surjective_pairing]
      C9_other_user_keeps_window [where render = blankRender and now = tenOClock and userName = "''A''"
        and msgText = "''YES''" and msgUnixTime = 36000, OF r(1) surjective_pairing]
      p r fresh
    by (simp add: handleDankTimeInputMessage_nothing [OF none] chat_fields)
qed

text \<open>
  Claim C4, amended. The dank-time handler on a text that matches the alias of at least
  one time slot, none of the matched slots being for the current local time: the sender's
  score drops by the highest point value among the matched slots, or by 0 when that value
  is negative (the running maximum starts at 0); the score-change extension point is
  triggered with the sender's record and that amount negated. \<open>u\<close> is the sender's
  record when the loop starts.
\<close>
theorem C4_wrong_time_punishment:
  assumes matched: "getDankTimesByText c msgText \<noteq> []"
    and wrong: "\<forall>d\<in>set (getDankTimesByText c msgText).
                  \<not> (hours now = hour d \<and> minutes now = minute d)"
    and sender: "map_of (users (withSender userId userName c)) userId = Some u"
    and penalty: "penalty = max 0 (Max (points ` set (getDankTimesByText c msgText)))"
    and punished: "u' = u\<lparr>score := score u - penalty,
                            lastScoreChange := lastScoreChange u - penalty,
                            lastScoreTimestamp := unix now\<rparr>"
    and res: "handleDankTimeInputMessage userId userName msgText t now c = (res, c')"
  shows "map_of (users c') userId = Some u' \<and>
     (\<forall>k. k \<noteq> userId \<longrightarrow> map_of (users c') k = map_of (users c) k) \<and>
     res = Inr (respond (pluginHost c) (UserScoreChange u' (- penalty))) \<and>
     fired (pluginHost c') = fired (pluginHost c) @ [UserScoreChange u' (- penalty)]"
proof -
  have none: "find (\<lambda>d. hours now = hour d \<and> minutes now = minute d)
                (getDankTimesByText c msgText) = None"
    using wrong by (simp add: find_None_iff)
  have "Max (insert 0 (points ` set (getDankTimesByText c msgText))) =
          max 0 (Max (points ` set (getDankTimesByText c msgText)))"
    using matched by (intro Max_insert) simp_all
  then have p: "penalty = Max (insert 0 (points ` set (getDankTimesByText c msgText)))"
    using penalty by simp
  have u': "u' = addToScore (- penalty) (unix now) u"
    by (simp add: punished addToScore_def)
  from handle_wrong_time [OF matched none sender p refl, of t] res
  have r: "res = Inr (respond (pluginHost c) (UserScoreChange u' (- penalty)))"
    and c': "c' = logEvent (UserScoreChange u' (- penalty))
               (updateUser userId (addToScore (- penalty) (unix now))
                  (withSender userId userName c))"
    by (simp_all add: u')
  have 1: "map_of (users c') userId = Some u'"
    by (simp add: c' chat_fields sender u')
  have 2: "\<forall>k. k \<noteq> userId \<longrightarrow> map_of (users c') k = map_of (users c) k"
    by (simp add: c' chat_fields map_of_withSender)
  have 3: "fired (pluginHost c') = fired (pluginHost c) @ [UserScoreChange u' (- penalty)]"
    by (simp add: c' chat_fields withSender_fields)
  show ?thesis using r 1 2 3 by simp
qed

theorem C4_wrong_time_punishment_witness:
  "map_of (users (snd (handleDankTimeInputMessage 2 ''Bee'' ''bacon'' 36000 tenOClock lunchChat))) 2 =
     Some (player 2 ''Bee'' 23 (- 2) 36000 False) \<and>
   fired (pluginHost (snd (handleDankTimeInputMessage 2 ''Bee'' ''bacon'' 36000 tenOClock lunchChat))) =
     [UserScoreChange (player 2 ''Bee'' 23 (- 2) 36000 False) (- 7)]"
proof -
  have now: "hours tenOClock = 10" "minutes tenOClock = 0" "unix tenOClock = 36000"
    by (simp_all add: tenOClock_def hours_def minutes_def localSeconds_def utc_def)
  have m: "getDankTimesByText lunchChat ''bacon'' =
      [\<lparr>hour = 12, minute = 0, texts = [''lunch'', ''bacon''], points = 4\<rparr>,
       \<lparr>hour = 13, minute = 37, texts = [''bacon''], points = 7\<rparr>]"
    by (simp add: getDankTimesByText_def lunchChat_def baconChat_def hasText_def)
  have matched: "getDankTimesByText lunchChat ''bacon'' \<noteq> []" by (simp add: m)
  have wrong: "\<forall>d\<in>set (getDankTimesByText lunchChat ''bacon'').
                  \<not> (hours tenOClock = hour d \<and> minutes tenOClock = minute d)"
    by (simp add: m now)
  have sender: "map_of (users (withSender 2 ''Bee'' lunchChat)) 2 = Some (player 2 ''Bee'' 30 5 0 False)"
    by (simp add: map_of_withSender lunchChat_def threePlayers_def player_def)
  have penalty: "7 = max 0 (Max (points ` set (getDankTimesByText lunchChat ''bacon'')))"
    by (simp add: m)
  have f: "fired (pluginHost lunchChat) = []"
    by (simp add: lunchChat_def baconChat_def echoHost_def)
  show ?thesis
    using C4_wrong_time_punishment [OF matched wrong sender penalty refl surjective_pairing, of 36000]
    by (simp add: now f player_def)
qed

text \<open>
  Claim C4 as stated fails where every matched slot has negative points: the only slot
  matching "x" is worth -5 and is for 11:00; at 10:00 the sender's score stays 3 and the
  extension point receives the delta 0, where the claim has the score drop by -5, to 8.
\<close>
theorem C4_counterexample:
  "running negativeChat \<and>
   map points (getDankTimesByText negativeChat ''x'') = [- 5] \<and>
   3 - Max (set (map points (getDankTimesByText negativeChat ''x''))) = 8 \<and>
   map hour (getDankTimesByText negativeChat ''x'') = [11] \<and>
   hours tenOClock = 10 \<and>
   map_of (users negativeChat) 1 = Some (player 1 ''A'' 3 0 0 False) \<and>
   map_of (users (snd (handleDankTimeInputMessage 1 ''A'' ''x'' 36000 tenOClock negativeChat))) 1 =
     Some (player 1 ''A'' 3 0 36000 False) \<and>
   fired (pluginHost (snd (handleDankTimeInputMessage 1 ''A'' ''x'' 36000 tenOClock negativeChat))) =
     [UserScoreChange (player 1 ''A'' 3 0 36000 False) 0]"
proof -
  have now: "hours tenOClock = 10" "minutes tenOClock = 0" "unix tenOClock = 36000"
    by (simp_all add: tenOClock_def hours_def minutes_def localSeconds_def utc_def)
  have m: "getDankTimesByText negativeChat ''x'' =
      [\<lparr>hour = 11, minute = 0, texts = [''x''], points = - 5\<rparr>]"
    by (simp add: getDankTimesByText_def negativeChat_def baconChat_def hasText_def)
  have matched: "getDankTimesByText negativeChat ''x'' \<noteq> []" by (simp add: m)
  have wrong: "find (\<lambda>d. hours tenOClock = hour d \<and> minutes tenOClock = minute d)
                  (getDankTimesByText negativeChat ''x'') = None"
    by (simp add: m now)
  have sender: "map_of (users (withSender 1 ''A'' negativeChat)) 1 = Some (player 1 ''A'' 3 0 0 False)"
    by (simp add: map_of_withSender negativeChat_def player_def)
  have p: "0 = Max (insert 0 (points ` set (getDankTimesByText negativeChat ''x'')))"
    by (simp add: m)
  have f: "fired (pluginHost negativeChat) = []" "running negativeChat"
    "map_of (users negativeChat) 1 = Some (player 1 ''A'' 3 0 0 False)"
    by (simp_all add: negativeChat_def baconChat_def echoHost_def)
  show ?thesis
    by (simp add: handle_wrong_time [OF matched wrong sender p refl] chat_fields sender
        withSender_fields f now m)
       (simp add: addToScore_def player_def)
qed

text \<open>
  Claim C5, amended. \<^verbatim>\<open>generateRandomDankTimes\<close> changes nothing but the random slots; it
  starts from an empty list and runs one step per index below \<^verbatim>\<open>numberOfRandomTimes\<close>, a
  step adding its slot or, on a collision, adding nothing. The result has at most
  \<^verbatim>\<open>numberOfRandomTimes\<close> slots, no two for the same hour and minute and none for the
  hour and minute of a normal slot. Each slot is for the hour and minute of the moment of
  its iteration: the hour lies in \<open>[0, 23]\<close> and the minute in \<open>[0, 59]\<close>. The minute
  is the one drawn, \<open>floor (random * 59)\<close>, which lies in \<open>[0, 58]\<close>, unless the UTC
  offset of the time zone changes by a fraction of an hour when the minute is set. The
  only text of a slot is the padded hour followed by the padded minute and its points are
  \<^verbatim>\<open>pointsPerRandomTime\<close>.
\<close>
theorem C5_generateRandomDankTimes:
  assumes draws: "\<forall>i<numberOfRandomTimes c.
      0 \<le> random2 (env i) \<and> random2 (env i) \<le> 1 - 1 / 2 ^ 53"
    and res: "generateRandomDankTimes env c = (slots, c')"
  shows "c' = c\<lparr>randomDankTimes := slots\<rparr> \<and>
    c' = fold (\<lambda>i. randomStep (env i)) [0..<numberOfRandomTimes c] (c\<lparr>randomDankTimes := []\<rparr>) \<and>
    length slots \<le> numberOfRandomTimes c \<and>
    distinct (map (\<lambda>d. (hour d, minute d)) slots) \<and>
    (\<forall>d\<in>set slots.
       0 \<le> hour d \<and> hour d \<le> 23 \<and> 0 \<le> minute d \<and> minute d \<le> 59 \<and>
       (\<exists>i<numberOfRandomTimes c.
           hour d = hours (drawMoment (env i)) \<and> minute d = minutes (drawMoment (env i)) \<and>
           (offsetShift (env i) mod 3600 = 0 \<longrightarrow>
              minute d = \<lfloor>timesDouble (random2 (env i)) 59\<rfloor> \<and> minute d \<le> 58)) \<and>
       texts d = [padNumber (hour d) @ padNumber (minute d)] \<and>
       points d = pointsPerRandomTime c \<and>
       \<not> list_ex (\<lambda>d'. hour d' = hour d \<and> minute d' = minute d) (dankTimes c))"
proof -
  let ?n = "numberOfRandomTimes c"
  let ?c0 = "c\<lparr>randomDankTimes := []\<rparr>"
  let ?f = "fold (\<lambda>i. randomStep (env i)) [0..<?n] ?c0"
  from res have slots: "slots = randomDankTimes ?f" and c': "c' = ?f"
    by (auto simp: generateRandomDankTimes_fold)
  have e: "randomDankTimes ?c0 = []" by simp
  note inv = fold_randomStep_inv [OF e, of env ?n slots]
  from inv have "?f\<lparr>randomDankTimes := slots\<rparr> = ?c0\<lparr>randomDankTimes := slots\<rparr>" by simp
  then have 1: "c' = c\<lparr>randomDankTimes := slots\<rparr>"
    by (simp add: c' slots)
  from inv have 2: "length slots \<le> ?n"
    and 3: "distinct (map (\<lambda>d. (hour d, minute d)) slots)"
    by (simp_all add: slots)
  have 4: "0 \<le> hour d \<and> hour d \<le> 23 \<and> 0 \<le> minute d \<and> minute d \<le> 59 \<and>
       (\<exists>i<?n.
           hour d = hours (drawMoment (env i)) \<and> minute d = minutes (drawMoment (env i)) \<and>
           (offsetShift (env i) mod 3600 = 0 \<longrightarrow>
              minute d = \<lfloor>timesDouble (random2 (env i)) 59\<rfloor> \<and> minute d \<le> 58)) \<and>
       texts d = [padNumber (hour d) @ padNumber (minute d)] \<and>
       points d = pointsPerRandomTime c \<and>
       \<not> list_ex (\<lambda>d'. hour d' = hour d \<and> minute d' = minute d) (dankTimes c)"
    if d: "d \<in> set slots" for d
  proof -
    from inv d obtain i where i: "i < ?n"
      and di: "d = \<lparr>hour = hours (drawMoment (env i)), minute = minutes (drawMoment (env i)),
           texts = [padNumber (hours (drawMoment (env i))) @ padNumber (minutes (drawMoment (env i)))],
           points = pointsPerRandomTime ?c0\<rparr>"
      and nc: "\<not> list_ex (\<lambda>d'. hour d' = hour d \<and> minute d' = minute d) (dankTimes ?c0)"
      unfolding slots by blast
    from draws i have r: "0 \<le> random2 (env i)" "random2 (env i) \<le> 1 - 1 / 2 ^ 53"
      by simp_all
    have h: "hour d = hours (drawMoment (env i))" and m: "minute d = minutes (drawMoment (env i))"
      by (simp_all add: di)
    have hr: "0 \<le> hour d \<and> hour d \<le> 23"
      using hours_range [of "drawMoment (env i)"] by (simp add: h)
    have mr: "0 \<le> minute d \<and> minute d \<le> 59"
      using minutes_range [of "drawMoment (env i)"] by (simp add: m)
    have st: "offsetShift (env i) mod 3600 = 0 \<longrightarrow>
              minute d = \<lfloor>timesDouble (random2 (env i)) 59\<rfloor> \<and> minute d \<le> 58"
      using drawMoment_minute [OF r] by (simp add: m)
    have tx: "texts d = [padNumber (hour d) @ padNumber (minute d)]"
      and pt: "points d = pointsPerRandomTime c"
      by (simp_all add: di pointsPerRandomTime_def)
    have "\<exists>i<?n. hour d = hours (drawMoment (env i)) \<and> minute d = minutes (drawMoment (env i)) \<and>
           (offsetShift (env i) mod 3600 = 0 \<longrightarrow>
              minute d = \<lfloor>timesDouble (random2 (env i)) 59\<rfloor> \<and> minute d \<le> 58)"
      using i h m st by blast
    then show ?thesis using hr mr tx pt nc by simp
  qed
  show ?thesis using 1 c' 2 3 4 by blast
qed

theorem C5_generateRandomDankTimes_witness:
  "fst (generateRandomDankTimes earlyDraws baconChat) =
     [\<lparr>hour = 3, minute = 45, texts = [''0345''], points = 10\<rparr>] \<and>
   snd (generateRandomDankTimes earlyDraws baconChat) =
     baconChat\<lparr>randomDankTimes := [\<lparr>hour = 3, minute = 45, texts = [''0345''], points = 10\<rparr>]\<rparr> \<and>
   offsetShift (earlyDraws 0) = 0 \<and> offsetShift (springDraws 0) = 0 \<and>
   hours (nowAt (springDraws 0)) = 23 \<and> minutes (nowAt (springDraws 0)) = 30 \<and>
   fst (generateRandomDankTimes springDraws amsterdamChat) =
     [\<lparr>hour = 5, minute = 45, texts = [''0545''], points = 10\<rparr>] \<and>
   snd (generateRandomDankTimes springDraws amsterdamChat) =
     amsterdamChat\<lparr>randomDankTimes := [\<lparr>hour = 5, minute = 45, texts = [''0545''], points = 10\<rparr>]\<rparr>"
proof -
  have draws: "\<forall>i<numberOfRandomTimes baconChat.
      0 \<le> random2 (earlyDraws i) \<and> random2 (earlyDraws i) \<le> 1 - 1 / 2 ^ 53"
    "\<forall>i<numberOfRandomTimes amsterdamChat.
      0 \<le> random2 (springDraws i) \<and> random2 (springDraws i) \<le> 1 - 1 / 2 ^ 53"
    by (simp_all add: earlyDraws_def springDraws_def)
  have early: "fst (generateRandomDankTimes earlyDraws baconChat) =
     [\<lparr>hour = 3, minute = 45, texts = [''0345''], points = 10\<rparr>]"
    by (simp add: generateRandomDankTimes_fold baconChat_slots three randomStep_def
        drawMoment_early Let_def hourAndMinuteAlreadyRegistered_def padNumber_examples)
  have spring: "fst (generateRandomDankTimes springDraws amsterdamChat) =
     [\<lparr>hour = 5, minute = 45, texts = [''0545''], points = 10\<rparr>]"
    by (simp add: generateRandomDankTimes_fold zoned_slots three randomStep_def
        drawMoment_spring Let_def hourAndMinuteAlreadyRegistered_def padNumber_examples)
  show ?thesis
    using C5_generateRandomDankTimes [OF draws(1) surjective_pairing]
      C5_generateRandomDankTimes [OF draws(2) surjective_pairing] early spring
    by (simp add: drawMoment_spring drawMoment_early)
qed

text \<open>
  Claim C5 as stated fails on the hour: at 01:00 UTC a draw of 0.96875 gives the offset
  22, and the slot is for 23:29. It fails on the minute where the minute is set across a
  change of the UTC offset that is not a whole number of hours: on Lord Howe Island at
  02:45, a quarter of an hour after the clocks went forward by half an hour, the draws
  0 and 0.5 set the minute 29 on the wall clock, which is an instant before the change,
  and the slot is for 01:59. (The second and third iteration draw the same pair and add
  nothing.)
\<close>
theorem C5_counterexample:
  "0 \<le> random1 (lateDraws 0) \<and> random1 (lateDraws 0) < 1 \<and>
   0 \<le> random2 (lateDraws 0) \<and> random2 (lateDraws 0) < 1 \<and>
   hours (nowAt (lateDraws 0)) = 1 \<and>
   fst (generateRandomDankTimes lateDraws baconChat) =
     [\<lparr>hour = 23, minute = 29, texts = [''2329''], points = 10\<rparr>] \<and>
   0 \<le> random1 (howeDraws 0) \<and> random1 (howeDraws 0) < 1 \<and>
   0 \<le> random2 (howeDraws 0) \<and> random2 (howeDraws 0) < 1 \<and>
   hours (nowAt (howeDraws 0)) = 2 \<and> minutes (nowAt (howeDraws 0)) = 45 \<and>
   offsetShift (howeDraws 0) = - 1800 \<and>
   fst (generateRandomDankTimes howeDraws howeChat) =
     [\<lparr>hour = 1, minute = 59, texts = [''0159''], points = 10\<rparr>]"
proof -
  have late: "fst (generateRandomDankTimes lateDraws baconChat) =
     [\<lparr>hour = 23, minute = 29, texts = [''2329''], points = 10\<rparr>]"
    by (simp add: generateRandomDankTimes_fold baconChat_slots three randomStep_def
        drawMoment_late Let_def hourAndMinuteAlreadyRegistered_def padNumber_examples)
  have howe: "fst (generateRandomDankTimes howeDraws howeChat) =
     [\<lparr>hour = 1, minute = 59, texts = [''0159''], points = 10\<rparr>]"
    by (simp add: generateRandomDankTimes_fold zoned_slots three randomStep_def
        drawMoment_howe Let_def hourAndMinuteAlreadyRegistered_def padNumber_examples)
  have r: "0 \<le> random1 (lateDraws 0) \<and> random1 (lateDraws 0) < 1 \<and>
     0 \<le> random2 (lateDraws 0) \<and> random2 (lateDraws 0) < 1 \<and>
     0 \<le> random1 (howeDraws 0) \<and> random1 (howeDraws 0) < 1 \<and>
     0 \<le> random2 (howeDraws 0) \<and> random2 (howeDraws 0) < 1"
    by (simp add: lateDraws_def howeDraws_def)
  have h: "hours (nowAt (lateDraws 0)) = 1"
    by (simp add: lateDraws_def oneOClock_def hours_def localSeconds_def utc_def)
  show ?thesis using late howe r h drawMoment_howe(1,2,5) [of 0] by simp
qed

end
